theory Spec2Isabelle
  imports Complex_Main "HOL-Library.Log_Nat"
begin

section \<open>Data model\<close>

text \<open>
  Instants are readings of \<^verbatim>\<open>datetime.now()\<close>, counted in microseconds (the resolution
  of Python's \<^verbatim>\<open>datetime\<close>); \<^verbatim>\<open>timedelta(hours=h)\<close> is \<open>h\<close> hours in that unit.
\<close>

type_synonym datetime = int

definition timedelta_hours :: "int \<Rightarrow> int" where
  "timedelta_hours h = h * 3600000000"

datatype py_error = TypeError | ZeroDivisionError | IntegrityError | OperationalError

section \<open>Python floats\<close>

text \<open>
  A Python float is an IEEE 754 binary64 number: a finite value, an infinity or NaN. A finite
  float is kept as the real number it stands for; the sign of a zero is not modelled.
\<close>

datatype pyfloat = Fin real | PInf | NInf | NaN

text \<open>The nearest integer, a tie going to the even neighbour.\<close>

definition round_half_even :: "real \<Rightarrow> int" where
  "round_half_even x =
     (let f = \<lfloor>x\<rfloor>; d = x - of_int f
      in if d < 1 / 2 then f else if 1 / 2 < d then f + 1 else if even f then f else f + 1)"

text \<open>
  The exponent \<open>k\<close> of a positive real, \<open>2\<^sup>k \<le> x < 2\<^sup>k\<^sup>+\<^sup>1\<close>, from the number of binary digits of
  the integer part of \<open>x\<close> or of \<open>1 / x\<close>; \<open>pow2 k\<close> is \<open>2\<^sup>k\<close>.
\<close>

definition ilog2 :: "real \<Rightarrow> int" where
  "ilog2 x = (if 1 \<le> x then int (floorlog 2 (nat \<lfloor>x\<rfloor>)) - 1
              else - int (floorlog 2 (nat (\<lceil>1 / x\<rceil> - 1))))"

definition pow2 :: "int \<Rightarrow> real" where
  "pow2 k = (if 0 \<le> k then 2 ^ nat k else 1 / 2 ^ nat (- k))"

text \<open>
  The float nearest to a real, as every float operation and every float literal rounds
  (round to nearest, ties to even): 53 significant bits, the smallest exponent -1022
  (below it the spacing stays \<open>2\<^sup>-\<^sup>1\<^sup>0\<^sup>7\<^sup>4\<close>), and an infinity when the rounded value reaches
  \<open>2\<^sup>1\<^sup>0\<^sup>2\<^sup>4\<close>.
\<close>

definition double :: "real \<Rightarrow> pyfloat" where
  "double x =
     (if x = 0 then Fin 0
      else
        (let ulp = pow2 (max (ilog2 \<bar>x\<bar>) (- 1022) - 52);
             r = of_int (round_half_even (x / ulp)) * ulp
         in if 2 ^ 1024 \<le> \<bar>r\<bar> then (if 0 < x then PInf else NInf) else Fin r))"

text \<open>\<^verbatim>\<open>a < b\<close>: a comparison with NaN is false.\<close>

fun flt :: "pyfloat \<Rightarrow> pyfloat \<Rightarrow> bool" where
  "flt NaN b = False"
| "flt a NaN = False"
| "flt (Fin x) (Fin y) = (x < y)"
| "flt (Fin x) PInf = True"
| "flt (Fin x) NInf = False"
| "flt PInf b = False"
| "flt NInf NInf = False"
| "flt NInf b = True"

fun fneg :: "pyfloat \<Rightarrow> pyfloat" where
  "fneg (Fin x) = Fin (- x)"
| "fneg PInf = NInf"
| "fneg NInf = PInf"
| "fneg NaN = NaN"

fun fadd :: "pyfloat \<Rightarrow> pyfloat \<Rightarrow> pyfloat" where
  "fadd (Fin x) (Fin y) = double (x + y)"
| "fadd NaN b = NaN"
| "fadd a NaN = NaN"
| "fadd PInf NInf = NaN"
| "fadd NInf PInf = NaN"
| "fadd PInf b = PInf"
| "fadd a PInf = PInf"
| "fadd NInf b = NInf"
| "fadd a NInf = NInf"

definition fsub :: "pyfloat \<Rightarrow> pyfloat \<Rightarrow> pyfloat" where
  "fsub a b = fadd a (fneg b)"

fun fmul :: "pyfloat \<Rightarrow> pyfloat \<Rightarrow> pyfloat" where
  "fmul (Fin x) (Fin y) = double (x * y)"
| "fmul NaN b = NaN"
| "fmul a NaN = NaN"
| "fmul PInf (Fin y) = (if y = 0 then NaN else if 0 < y then PInf else NInf)"
| "fmul NInf (Fin y) = (if y = 0 then NaN else if 0 < y then NInf else PInf)"
| "fmul (Fin x) PInf = (if x = 0 then NaN else if 0 < x then PInf else NInf)"
| "fmul (Fin x) NInf = (if x = 0 then NaN else if 0 < x then NInf else PInf)"
| "fmul PInf PInf = PInf"
| "fmul PInf NInf = NInf"
| "fmul NInf PInf = NInf"
| "fmul NInf NInf = PInf"

text \<open>Division by a divisor that is not zero.\<close>

fun fdiv :: "pyfloat \<Rightarrow> pyfloat \<Rightarrow> pyfloat" where
  "fdiv (Fin x) (Fin y) = double (x / y)"
| "fdiv NaN b = NaN"
| "fdiv a NaN = NaN"
| "fdiv (Fin x) PInf = Fin 0"
| "fdiv (Fin x) NInf = Fin 0"
| "fdiv PInf (Fin y) = (if 0 < y then PInf else NInf)"
| "fdiv NInf (Fin y) = (if 0 < y then NInf else PInf)"
| "fdiv PInf b = NaN"
| "fdiv NInf b = NaN"

text \<open>\<^verbatim>\<open>a / b\<close> on floats raises \<^verbatim>\<open>ZeroDivisionError\<close> when \<open>b\<close> is zero, whatever \<open>a\<close> is.\<close>

definition py_truediv :: "pyfloat \<Rightarrow> pyfloat \<Rightarrow> py_error + pyfloat" where
  "py_truediv a b = (if b = Fin 0 then Inl ZeroDivisionError else Inr (fdiv a b))"

text \<open>\<^verbatim>\<open>min(a, b)\<close>: the first argument unless the second is less.\<close>

definition py_min :: "pyfloat \<Rightarrow> pyfloat \<Rightarrow> pyfloat" where
  "py_min a b = (if flt b a then b else a)"

text \<open>
  \<^verbatim>\<open>round(x, ndigits)\<close> on a float: an infinity and NaN round to themselves; a finite float
  goes to the multiple of \<open>10\<^sup>-\<^sup>n\<close> nearest to its exact value, a tie to the even one, and
  the result is the float nearest to that decimal.
\<close>

definition py_round :: "pyfloat \<Rightarrow> nat \<Rightarrow> pyfloat" where
  "py_round x ndigits =
     (case x of
        Fin v \<Rightarrow> double (of_int (round_half_even (v * 10 ^ ndigits)) / 10 ^ ndigits)
      | _ \<Rightarrow> x)"

text \<open>\<^verbatim>\<open>x or 0\<close> on a nullable float: \<open>None\<close> and zero are false and give the right operand.\<close>

definition float_or_zero :: "pyfloat option \<Rightarrow> pyfloat" where
  "float_or_zero x = (case x of None \<Rightarrow> Fin 0 | Some v \<Rightarrow> if v = Fin 0 then Fin 0 else v)"

section \<open>Tables and dictionaries\<close>

text \<open>
  \<^verbatim>\<open>models.DistrictData\<close>: one row of table \<^verbatim>\<open>district_data\<close>. Columns declared
  \<^verbatim>\<open>nullable=False\<close> hold a value, every other column may hold NULL (\<open>None\<close>).
  A \<^verbatim>\<open>Float\<close> column holds a Python float, an \<^verbatim>\<open>Integer\<close> column an unbounded integer.
  The surrogate key \<^verbatim>\<open>id\<close> is never read by the service and is left out; the table is a
  list, so two rows with equal columns remain two rows. The dictionary built by
  \<^verbatim>\<open>_format_district_data\<close> has one key per column, so it has this type too.
\<close>

record DistrictData =
  dd_district_code :: string
  dd_district_name :: string
  dd_state_name :: string
  dd_year :: int
  dd_total_job_cards :: "int option"
  dd_active_job_cards :: "int option"
  dd_total_workers :: "int option"
  dd_active_workers :: "int option"
  dd_total_person_days :: "pyfloat option"
  dd_average_days_per_household :: "pyfloat option"
  dd_households_completed_100_days :: "int option"
  dd_total_expenditure :: "pyfloat option"
  dd_wage_expenditure :: "pyfloat option"
  dd_material_expenditure :: "pyfloat option"
  dd_average_wage_rate :: "pyfloat option"
  dd_total_works :: "int option"
  dd_completed_works :: "int option"
  dd_ongoing_works :: "int option"
  dd_employment_provided_percentage :: "pyfloat option"
  dd_timely_payment_percentage :: "pyfloat option"
  dd_data_source :: "string option"
  dd_last_updated :: "datetime option"
  dd_is_cached :: "bool option"

text \<open>
  The dictionary returned by \<^verbatim>\<open>DataGovClient.get_district_mgnrega_data\<close>: the keys that
  \<^verbatim>\<open>_generate_sample_district_data\<close> produces. A field is \<open>None\<close> when the key is absent
  from the dictionary; a key that is present carries a value of the column's type.
\<close>

record fetched =
  fd_district_code :: "string option"
  fd_district_name :: "string option"
  fd_state_name :: "string option"
  fd_year :: "int option"
  fd_total_job_cards :: "int option"
  fd_active_job_cards :: "int option"
  fd_total_workers :: "int option"
  fd_active_workers :: "int option"
  fd_total_person_days :: "pyfloat option"
  fd_average_days_per_household :: "pyfloat option"
  fd_households_completed_100_days :: "int option"
  fd_total_expenditure :: "pyfloat option"
  fd_wage_expenditure :: "pyfloat option"
  fd_material_expenditure :: "pyfloat option"
  fd_average_wage_rate :: "pyfloat option"
  fd_total_works :: "int option"
  fd_completed_works :: "int option"
  fd_ongoing_works :: "int option"
  fd_employment_provided_percentage :: "pyfloat option"
  fd_timely_payment_percentage :: "pyfloat option"
  fd_data_source :: "string option"
  fd_is_cached :: "bool option"

text \<open>The dictionary built by \<^verbatim>\<open>_calculate_district_stats\<close>.\<close>

record stats_dict =
  sd_district_name :: string
  sd_state_name :: string
  sd_performance_score :: pyfloat
  sd_employment_rank :: int
  sd_expenditure_rank :: int
  sd_employment_trend :: pyfloat
  sd_expenditure_trend :: pyfloat
  sd_state_average_comparison :: pyfloat
  sd_national_average_comparison :: pyfloat
  sd_total_beneficiaries :: int
  sd_total_investment :: pyfloat
  sd_calculation_date :: datetime

text \<open>\<^verbatim>\<open>models.DistrictStats\<close>: one row of table \<^verbatim>\<open>district_stats\<close> (without \<^verbatim>\<open>id\<close>).\<close>

record DistrictStats =
  ds_district_code :: string
  ds_district_name :: string
  ds_state_name :: string
  ds_performance_score :: "pyfloat option"
  ds_employment_rank :: "int option"
  ds_expenditure_rank :: "int option"
  ds_employment_trend :: "pyfloat option"
  ds_expenditure_trend :: "pyfloat option"
  ds_state_average_comparison :: "pyfloat option"
  ds_national_average_comparison :: "pyfloat option"
  ds_total_beneficiaries :: "int option"
  ds_total_investment :: "pyfloat option"
  ds_calculation_date :: "datetime option"
  ds_last_updated :: "datetime option"

text \<open>
  \<^verbatim>\<open>models.CacheStatus\<close>: one row of table \<^verbatim>\<open>cache_status\<close> (without \<^verbatim>\<open>id\<close>). The same
  record models the Python object before it is flushed: an attribute that the constructor
  was not given reads as \<open>None\<close>, since a column default is applied by the INSERT only.
\<close>

record CacheStatus =
  cs_data_type :: string
  cs_last_api_fetch :: "datetime option"
  cs_last_successful_fetch :: "datetime option"
  cs_total_records :: "int option"
  cs_failed_attempts :: "int option"
  cs_is_stale :: "bool option"
  cs_api_status :: "string option"
  cs_error_message :: "string option"
  cs_created_at :: "datetime option"
  cs_updated_at :: "datetime option"

text \<open>
  The SQLAlchemy session \<^verbatim>\<open>db\<close>: the committed contents of the three tables the service
  uses. Whether \<^verbatim>\<open>db.commit()\<close> raises is decided by the database engine, not by the
  service; \<open>commit_fails\<close> is that outcome for the commits of the operation at hand.
\<close>

record Session =
  tbl_district_data :: "DistrictData list"
  tbl_district_stats :: "DistrictStats list"
  tbl_cache_status :: "CacheStatus list"
  commit_fails :: bool

text \<open>
  \<^verbatim>\<open>MGNREGAService\<close>: \<^verbatim>\<open>self.cache_duration_hours\<close> and \<^verbatim>\<open>self.data_client\<close>. The client is
  the function from a request to what \<^verbatim>\<open>get_district_mgnrega_data\<close> returns for it
  (\<open>None\<close> when the fetch failed; the client catches its own exceptions).
\<close>

record MGNREGAService =
  cache_duration_hours :: int
  data_client :: "string \<Rightarrow> int \<Rightarrow> fetched option"

definition MGNREGAService_init :: "(string \<Rightarrow> int \<Rightarrow> fetched option) \<Rightarrow> MGNREGAService" where
  "MGNREGAService_init client = \<lparr>cache_duration_hours = 24, data_client = client\<rparr>"

text \<open>
  The environment of one call: the reading of \<^verbatim>\<open>datetime.now()\<close> during the call and the
  calendar year of that reading (\<^verbatim>\<open>datetime.now().year\<close>).
\<close>

record env =
  now :: datetime
  this_year :: int

section \<open>Staleness policy\<close>

text \<open>
  \<^verbatim>\<open>_is_cache_stale\<close>: a missing timestamp is stale; otherwise the record is stale when
  \<^verbatim>\<open>last_updated < datetime.now() - timedelta(hours=self.cache_duration_hours)\<close>.
\<close>

definition is_cache_stale :: "MGNREGAService \<Rightarrow> datetime option \<Rightarrow> datetime \<Rightarrow> bool" where
  "is_cache_stale self last_updated now_reading =
     (case last_updated of
        None \<Rightarrow> True
      | Some t \<Rightarrow>
          (let stale_threshold = now_reading - timedelta_hours (cache_duration_hours self)
           in t < stale_threshold))"

section \<open>Cache store\<close>

text \<open>
  \<^verbatim>\<open>Query.filter(...).first()\<close> is \<^const>\<open>find\<close> on the table. An object returned by a query
  is mutated in place; \<open>update_first\<close> writes the mutated object back at the position of
  the first row the filter selects.
\<close>

fun update_first :: "('a \<Rightarrow> bool) \<Rightarrow> ('a \<Rightarrow> 'a) \<Rightarrow> 'a list \<Rightarrow> 'a list" where
  "update_first P f [] = []"
| "update_first P f (x # xs) = (if P x then f x # xs else x # update_first P f xs)"

definition key_matches :: "string \<Rightarrow> int \<Rightarrow> DistrictData \<Rightarrow> bool" where
  "key_matches district_code year r \<longleftrightarrow> dd_district_code r = district_code \<and> dd_year r = year"

definition get_cached_district_data :: "Session \<Rightarrow> string \<Rightarrow> int \<Rightarrow> DistrictData option" where
  "get_cached_district_data db district_code year =
     find (key_matches district_code year) (tbl_district_data db)"

definition format_district_data :: "DistrictData \<Rightarrow> DistrictData" where
  "format_district_data district_data =
     \<lparr>dd_district_code = dd_district_code district_data,
      dd_district_name = dd_district_name district_data,
      dd_state_name = dd_state_name district_data,
      dd_year = dd_year district_data,
      dd_total_job_cards = dd_total_job_cards district_data,
      dd_active_job_cards = dd_active_job_cards district_data,
      dd_total_workers = dd_total_workers district_data,
      dd_active_workers = dd_active_workers district_data,
      dd_total_person_days = dd_total_person_days district_data,
      dd_average_days_per_household = dd_average_days_per_household district_data,
      dd_households_completed_100_days = dd_households_completed_100_days district_data,
      dd_total_expenditure = dd_total_expenditure district_data,
      dd_wage_expenditure = dd_wage_expenditure district_data,
      dd_material_expenditure = dd_material_expenditure district_data,
      dd_average_wage_rate = dd_average_wage_rate district_data,
      dd_total_works = dd_total_works district_data,
      dd_completed_works = dd_completed_works district_data,
      dd_ongoing_works = dd_ongoing_works district_data,
      dd_employment_provided_percentage = dd_employment_provided_percentage district_data,
      dd_timely_payment_percentage = dd_timely_payment_percentage district_data,
      dd_data_source = dd_data_source district_data,
      dd_last_updated = dd_last_updated district_data,
      dd_is_cached = dd_is_cached district_data\<rparr>"

text \<open>
  \<open>key_or d old\<close> is \<^verbatim>\<open>d[key] if key in d else old\<close>, for a column that cannot be NULL;
  \<open>key_or_null\<close> is the same for a nullable column.
\<close>

definition key_or :: "'a option \<Rightarrow> 'a \<Rightarrow> 'a" where
  "key_or entry old = (case entry of None \<Rightarrow> old | Some v \<Rightarrow> v)"

definition key_or_null :: "'a option \<Rightarrow> 'a option \<Rightarrow> 'a option" where
  "key_or_null entry old = (case entry of None \<Rightarrow> old | Some v \<Rightarrow> Some v)"

text \<open>
  The loop \<^verbatim>\<open>for key, value in data.items(): if hasattr(existing, key): setattr(existing, key, value)\<close>
  of \<^verbatim>\<open>_save_district_data_to_cache\<close>: every key of the dictionary is a column of the row, so
  each column takes the dictionary's value when the key is present and keeps its own otherwise.
\<close>

definition setattr_all :: "fetched \<Rightarrow> DistrictData \<Rightarrow> DistrictData" where
  "setattr_all data existing =
     \<lparr>dd_district_code = key_or (fd_district_code data) (dd_district_code existing),
      dd_district_name = key_or (fd_district_name data) (dd_district_name existing),
      dd_state_name = key_or (fd_state_name data) (dd_state_name existing),
      dd_year = key_or (fd_year data) (dd_year existing),
      dd_total_job_cards = key_or_null (fd_total_job_cards data) (dd_total_job_cards existing),
      dd_active_job_cards = key_or_null (fd_active_job_cards data) (dd_active_job_cards existing),
      dd_total_workers = key_or_null (fd_total_workers data) (dd_total_workers existing),
      dd_active_workers = key_or_null (fd_active_workers data) (dd_active_workers existing),
      dd_total_person_days = key_or_null (fd_total_person_days data) (dd_total_person_days existing),
      dd_average_days_per_household =
        key_or_null (fd_average_days_per_household data) (dd_average_days_per_household existing),
      dd_households_completed_100_days =
        key_or_null (fd_households_completed_100_days data) (dd_households_completed_100_days existing),
      dd_total_expenditure = key_or_null (fd_total_expenditure data) (dd_total_expenditure existing),
      dd_wage_expenditure = key_or_null (fd_wage_expenditure data) (dd_wage_expenditure existing),
      dd_material_expenditure =
        key_or_null (fd_material_expenditure data) (dd_material_expenditure existing),
      dd_average_wage_rate = key_or_null (fd_average_wage_rate data) (dd_average_wage_rate existing),
      dd_total_works = key_or_null (fd_total_works data) (dd_total_works existing),
      dd_completed_works = key_or_null (fd_completed_works data) (dd_completed_works existing),
      dd_ongoing_works = key_or_null (fd_ongoing_works data) (dd_ongoing_works existing),
      dd_employment_provided_percentage =
        key_or_null (fd_employment_provided_percentage data) (dd_employment_provided_percentage existing),
      dd_timely_payment_percentage =
        key_or_null (fd_timely_payment_percentage data) (dd_timely_payment_percentage existing),
      dd_data_source = key_or_null (fd_data_source data) (dd_data_source existing),
      dd_last_updated = dd_last_updated existing,
      dd_is_cached = key_or_null (fd_is_cached data) (dd_is_cached existing)\<rparr>"

text \<open>
  The branch that creates a row: \<^verbatim>\<open>record_payload\<close> is the dictionary with
  \<^verbatim>\<open>district_code\<close> and \<^verbatim>\<open>year\<close> overwritten by the arguments and \<^verbatim>\<open>is_cached\<close> defaulted to
  \<open>True\<close>; the INSERT fills a column that was given no value with the column default of
  \<^verbatim>\<open>models.py\<close>, and raises \<^verbatim>\<open>IntegrityError\<close> when \<^verbatim>\<open>district_name\<close> or \<^verbatim>\<open>state_name\<close>
  (\<^verbatim>\<open>nullable=False\<close>, no default) has none.
\<close>

definition new_district_data ::
  "fetched \<Rightarrow> string \<Rightarrow> int \<Rightarrow> datetime \<Rightarrow> py_error + DistrictData" where
  "new_district_data data district_code year now_reading =
     (case fd_district_name data of
        None \<Rightarrow> Inl IntegrityError
      | Some district_name \<Rightarrow>
     (case fd_state_name data of
        None \<Rightarrow> Inl IntegrityError
      | Some state_name \<Rightarrow>
          Inr \<lparr>dd_district_code = district_code,
               dd_district_name = district_name,
               dd_state_name = state_name,
               dd_year = year,
               dd_total_job_cards = key_or_null (fd_total_job_cards data) (Some 0),
               dd_active_job_cards = key_or_null (fd_active_job_cards data) (Some 0),
               dd_total_workers = key_or_null (fd_total_workers data) (Some 0),
               dd_active_workers = key_or_null (fd_active_workers data) (Some 0),
               dd_total_person_days = key_or_null (fd_total_person_days data) (Some (Fin 0)),
               dd_average_days_per_household =
                 key_or_null (fd_average_days_per_household data) (Some (Fin 0)),
               dd_households_completed_100_days =
                 key_or_null (fd_households_completed_100_days data) (Some 0),
               dd_total_expenditure = key_or_null (fd_total_expenditure data) (Some (Fin 0)),
               dd_wage_expenditure = key_or_null (fd_wage_expenditure data) (Some (Fin 0)),
               dd_material_expenditure = key_or_null (fd_material_expenditure data) (Some (Fin 0)),
               dd_average_wage_rate = key_or_null (fd_average_wage_rate data) (Some (Fin 0)),
               dd_total_works = key_or_null (fd_total_works data) (Some 0),
               dd_completed_works = key_or_null (fd_completed_works data) (Some 0),
               dd_ongoing_works = key_or_null (fd_ongoing_works data) (Some 0),
               dd_employment_provided_percentage =
                 key_or_null (fd_employment_provided_percentage data) (Some (Fin 0)),
               dd_timely_payment_percentage =
                 key_or_null (fd_timely_payment_percentage data) (Some (Fin 0)),
               dd_data_source = key_or_null (fd_data_source data) (Some ''data.gov.in''),
               dd_last_updated = Some now_reading,
               dd_is_cached = key_or_null (fd_is_cached data) (Some True)\<rparr>))"

text \<open>
  \<^verbatim>\<open>_save_district_data_to_cache\<close>. The result pairs what the function gives its caller
  (\<open>Inl\<close>: the exception it re-raises after \<^verbatim>\<open>db.rollback()\<close>; \<open>Inr\<close>: the formatted record)
  with the session afterwards. A rollback leaves the tables as they were.
\<close>

definition save_district_data_to_cache ::
  "Session \<Rightarrow> fetched \<Rightarrow> string \<Rightarrow> int \<Rightarrow> env \<Rightarrow> (py_error + DistrictData) \<times> Session" where
  "save_district_data_to_cache db data district_code year e =
     (case get_cached_district_data db district_code year of
        Some existing \<Rightarrow>
          (let record = (setattr_all data existing)\<lparr>dd_last_updated := Some (now e)\<rparr>
           in if commit_fails db then (Inl OperationalError, db)
              else (Inr (format_district_data record),
                    db\<lparr>tbl_district_data :=
                         update_first (key_matches district_code year) (\<lambda>_. record)
                           (tbl_district_data db)\<rparr>))
      | None \<Rightarrow>
          (case new_district_data data district_code year (now e) of
             Inl err \<Rightarrow> (Inl err, db)
           | Inr record \<Rightarrow>
               if commit_fails db then (Inl OperationalError, db)
               else (Inr (format_district_data record),
                     db\<lparr>tbl_district_data := tbl_district_data db @ [record]\<rparr>)))"

section \<open>Read path\<close>

text \<open>The empty dictionary, the only dictionary that is false in a condition.\<close>

definition empty_dict :: fetched where
  "empty_dict =
     \<lparr>fd_district_code = None, fd_district_name = None, fd_state_name = None, fd_year = None,
      fd_total_job_cards = None, fd_active_job_cards = None, fd_total_workers = None,
      fd_active_workers = None, fd_total_person_days = None,
      fd_average_days_per_household = None, fd_households_completed_100_days = None,
      fd_total_expenditure = None, fd_wage_expenditure = None, fd_material_expenditure = None,
      fd_average_wage_rate = None, fd_total_works = None, fd_completed_works = None,
      fd_ongoing_works = None, fd_employment_provided_percentage = None,
      fd_timely_payment_percentage = None, fd_data_source = None, fd_is_cached = None\<rparr>"

text \<open>\<^verbatim>\<open>if fresh_data:\<close> holds for a dictionary with at least one key.\<close>

definition truthy :: "fetched option \<Rightarrow> bool" where
  "truthy fresh_data = (case fresh_data of None \<Rightarrow> False | Some d \<Rightarrow> d \<noteq> empty_dict)"

text \<open>\<^verbatim>\<open>year or datetime.now().year\<close>: a missing year and the year 0 are both false.\<close>

definition year_or_now :: "int option \<Rightarrow> env \<Rightarrow> int" where
  "year_or_now year e =
     (case year of None \<Rightarrow> this_year e | Some y \<Rightarrow> if y = 0 then this_year e else y)"

text \<open>
  \<^verbatim>\<open>get_district_data\<close>. The result is what the caller receives (\<open>None\<close> or the formatted
  record), the session afterwards, and the requests sent to the data client, in order.
  The handler \<^verbatim>\<open>except Exception: return None\<close> around the body is the \<open>Inl\<close> branch.
\<close>

definition get_district_data ::
  "MGNREGAService \<Rightarrow> Session \<Rightarrow> string \<Rightarrow> int option \<Rightarrow> env
     \<Rightarrow> DistrictData option \<times> Session \<times> (string \<times> int) list" where
  "get_district_data self db district_code year e =
     (let current_year = year_or_now year e;
          cached_data = get_cached_district_data db district_code current_year
      in case (case cached_data of
                 None \<Rightarrow> None
               | Some c \<Rightarrow> if is_cache_stale self (dd_last_updated c) (now e) then None else Some c) of
           Some c \<Rightarrow> (Some (format_district_data c), db, [])
         | None \<Rightarrow>
             (let fresh_data = data_client self district_code current_year;
                  calls = [(district_code, current_year)]
              in if truthy fresh_data then
                   (case fresh_data of
                      None \<Rightarrow> (None, db, calls)
                    | Some d \<Rightarrow>
                        (case save_district_data_to_cache db d district_code current_year e of
                           (Inr formatted, db') \<Rightarrow> (Some formatted, db', calls)
                         | (Inl err, db') \<Rightarrow> (None, db', calls)))
                 else
                   (case cached_data of
                      Some c \<Rightarrow> (Some (format_district_data c), db, calls)
                    | None \<Rightarrow> (None, db, calls))))"

section \<open>Aggregate statistics\<close>

text \<open>
  \<^verbatim>\<open>x or 0\<close> on a nullable integer: \<open>None\<close> and zero are false and give the right
  operand, any other value gives itself.
\<close>

definition or_zero :: "int option \<Rightarrow> int" where
  "or_zero x = (case x of None \<Rightarrow> 0 | Some v \<Rightarrow> if v = 0 then 0 else v)"

text \<open>
  One trend of \<^verbatim>\<open>_calculate_district_stats\<close>, before rounding:
  \<^verbatim>\<open>if previous.v > 0: trend = ((current.v - previous.v) / previous.v) * 100\<close>, the trend
  staying \<open>0.0\<close> otherwise. Comparing \<open>None\<close> with a number, and subtracting from \<open>None\<close>,
  raise \<^verbatim>\<open>TypeError\<close>.
\<close>

definition trend :: "pyfloat option \<Rightarrow> pyfloat option \<Rightarrow> py_error + pyfloat" where
  "trend current previous =
     (case previous of
        None \<Rightarrow> Inl TypeError
      | Some p \<Rightarrow>
          if flt (Fin 0) p then
            (case current of
               None \<Rightarrow> Inl TypeError
             | Some c \<Rightarrow>
                 (case py_truediv (fsub c p) p of
                    Inl err \<Rightarrow> Inl err
                  | Inr q \<Rightarrow> Inr (fmul q (Fin 100))))
          else Inr (Fin 0))"

text \<open>
  \<^verbatim>\<open>query(DistrictData).filter(district_code == ...).order_by(desc(year)).limit(3).all()\<close>.
  Rows of equal year keep their table order.
\<close>

definition recent_data :: "Session \<Rightarrow> string \<Rightarrow> DistrictData list" where
  "recent_data db district_code =
     take 3 (sort_key (\<lambda>r. - dd_year r)
               (filter (\<lambda>r. dd_district_code r = district_code) (tbl_district_data db)))"

text \<open>
  \<^verbatim>\<open>(e or 0) * 0.4 + (t or 0) * 0.3 + min((a or 0) / 100 * 100, 100) * 0.3\<close>, each
  operation rounding to a float, from left to right; the literals are the floats nearest to
  0.4 and 0.3, and the divisor 100 is not zero.
\<close>

definition performance_score :: "DistrictData \<Rightarrow> pyfloat" where
  "performance_score latest_data =
     fadd
       (fadd
          (fmul (float_or_zero (dd_employment_provided_percentage latest_data)) (double 0.4))
          (fmul (float_or_zero (dd_timely_payment_percentage latest_data)) (double 0.3)))
       (fmul
          (py_min
             (fmul (fdiv (float_or_zero (dd_average_days_per_household latest_data)) (Fin 100))
                (Fin 100))
             (Fin 100))
          (double 0.3))"

text \<open>
  The body of the \<^verbatim>\<open>try\<close> of \<^verbatim>\<open>_calculate_district_stats\<close>, given the rows the query
  returned: \<open>Inl\<close> is an exception raised in it, \<open>Inr None\<close> the early \<^verbatim>\<open>return None\<close>.
\<close>

definition calculate_body :: "DistrictData list \<Rightarrow> env \<Rightarrow> py_error + stats_dict option" where
  "calculate_body recent e =
     (case recent of
        [] \<Rightarrow> Inr None
      | latest_data # older \<Rightarrow>
          (case (case older of
                   [] \<Rightarrow> Inr (Fin 0, Fin 0)
                 | previous # _ \<Rightarrow>
                     (case trend (dd_total_person_days latest_data)
                                 (dd_total_person_days previous) of
                        Inl err \<Rightarrow> Inl err
                      | Inr employment_trend \<Rightarrow>
                          (case trend (dd_total_expenditure latest_data)
                                      (dd_total_expenditure previous) of
                             Inl err \<Rightarrow> Inl err
                           | Inr expenditure_trend \<Rightarrow>
                               Inr (employment_trend, expenditure_trend)))) of
             Inl err \<Rightarrow> Inl err
           | Inr (employment_trend, expenditure_trend) \<Rightarrow>
               Inr (Some
                 \<lparr>sd_district_name = dd_district_name latest_data,
                  sd_state_name = dd_state_name latest_data,
                  sd_performance_score = py_round (performance_score latest_data) 2,
                  sd_employment_rank = 0,
                  sd_expenditure_rank = 0,
                  sd_employment_trend = py_round employment_trend 2,
                  sd_expenditure_trend = py_round expenditure_trend 2,
                  sd_state_average_comparison = Fin 0,
                  sd_national_average_comparison = Fin 0,
                  sd_total_beneficiaries = or_zero (dd_active_workers latest_data),
                  sd_total_investment = float_or_zero (dd_total_expenditure latest_data),
                  sd_calculation_date = now e\<rparr>)))"

text \<open>
  \<^verbatim>\<open>_calculate_district_stats\<close>: the handler \<^verbatim>\<open>except Exception: return None\<close> turns an
  exception of the body into \<open>None\<close>.
\<close>

definition calculate_district_stats :: "Session \<Rightarrow> string \<Rightarrow> env \<Rightarrow> stats_dict option" where
  "calculate_district_stats db district_code e =
     (case calculate_body (recent_data db district_code) e of
        Inl err \<Rightarrow> None
      | Inr result \<Rightarrow> result)"

definition format_district_stats :: "DistrictStats \<Rightarrow> DistrictStats" where
  "format_district_stats district_stats =
     \<lparr>ds_district_code = ds_district_code district_stats,
      ds_district_name = ds_district_name district_stats,
      ds_state_name = ds_state_name district_stats,
      ds_performance_score = ds_performance_score district_stats,
      ds_employment_rank = ds_employment_rank district_stats,
      ds_expenditure_rank = ds_expenditure_rank district_stats,
      ds_employment_trend = ds_employment_trend district_stats,
      ds_expenditure_trend = ds_expenditure_trend district_stats,
      ds_state_average_comparison = ds_state_average_comparison district_stats,
      ds_national_average_comparison = ds_national_average_comparison district_stats,
      ds_total_beneficiaries = ds_total_beneficiaries district_stats,
      ds_total_investment = ds_total_investment district_stats,
      ds_calculation_date = ds_calculation_date district_stats,
      ds_last_updated = ds_last_updated district_stats\<rparr>"

text \<open>
  The row that \<^verbatim>\<open>_save_district_stats_to_cache\<close> leaves for a district: every key of the
  statistics dictionary is a column, so the update loop and the constructor
  \<^verbatim>\<open>DistrictStats(district_code=..., last_updated=datetime.now(), **stats)\<close> both give this row.
\<close>

definition stats_row :: "string \<Rightarrow> stats_dict \<Rightarrow> datetime \<Rightarrow> DistrictStats" where
  "stats_row district_code stats now_reading =
     \<lparr>ds_district_code = district_code,
      ds_district_name = sd_district_name stats,
      ds_state_name = sd_state_name stats,
      ds_performance_score = Some (sd_performance_score stats),
      ds_employment_rank = Some (sd_employment_rank stats),
      ds_expenditure_rank = Some (sd_expenditure_rank stats),
      ds_employment_trend = Some (sd_employment_trend stats),
      ds_expenditure_trend = Some (sd_expenditure_trend stats),
      ds_state_average_comparison = Some (sd_state_average_comparison stats),
      ds_national_average_comparison = Some (sd_national_average_comparison stats),
      ds_total_beneficiaries = Some (sd_total_beneficiaries stats),
      ds_total_investment = Some (sd_total_investment stats),
      ds_calculation_date = Some (sd_calculation_date stats),
      ds_last_updated = Some now_reading\<rparr>"

text \<open>
  \<^verbatim>\<open>_save_district_stats_to_cache\<close>: returns nothing; its handler rolls back and does not
  re-raise. The result is the session afterwards.
\<close>

definition save_district_stats_to_cache ::
  "Session \<Rightarrow> stats_dict \<Rightarrow> string \<Rightarrow> env \<Rightarrow> Session" where
  "save_district_stats_to_cache db stats district_code e =
     (case find (\<lambda>s. ds_district_code s = district_code) (tbl_district_stats db) of
        Some existing \<Rightarrow>
          if commit_fails db then db
          else db\<lparr>tbl_district_stats :=
                    update_first (\<lambda>s. ds_district_code s = district_code)
                      (\<lambda>_. stats_row (ds_district_code existing) stats (now e))
                      (tbl_district_stats db)\<rparr>
      | None \<Rightarrow>
          if commit_fails db then db
          else db\<lparr>tbl_district_stats :=
                    tbl_district_stats db @ [stats_row district_code stats (now e)]\<rparr>)"

text \<open>
  What \<^verbatim>\<open>get_district_stats\<close> returns: the formatted cached row (fourteen keys) or the
  dictionary just calculated (twelve keys).
\<close>

datatype stats_result = Formatted DistrictStats | Calculated stats_dict

definition get_district_stats ::
  "MGNREGAService \<Rightarrow> Session \<Rightarrow> string \<Rightarrow> env \<Rightarrow> stats_result option \<times> Session" where
  "get_district_stats self db district_code e =
     (let cached_stats = find (\<lambda>s. ds_district_code s = district_code) (tbl_district_stats db)
      in case (case cached_stats of
                 None \<Rightarrow> None
               | Some c \<Rightarrow> if is_cache_stale self (ds_last_updated c) (now e) then None else Some c) of
           Some c \<Rightarrow> (Some (Formatted (format_district_stats c)), db)
         | None \<Rightarrow>
             (case calculate_district_stats db district_code e of
                Some stats \<Rightarrow>
                  (Some (Calculated stats), save_district_stats_to_cache db stats district_code e)
              | None \<Rightarrow>
                  (case cached_stats of
                     Some c \<Rightarrow> (Some (Formatted (format_district_stats c)), db)
                   | None \<Rightarrow> (None, db))))"

section \<open>Health tracker\<close>

text \<open>\<^verbatim>\<open>CacheStatus(data_type=data_type)\<close>: no other attribute is set.\<close>

definition CacheStatus_init :: "string \<Rightarrow> CacheStatus" where
  "CacheStatus_init data_type =
     \<lparr>cs_data_type = data_type, cs_last_api_fetch = None, cs_last_successful_fetch = None,
      cs_total_records = None, cs_failed_attempts = None, cs_is_stale = None,
      cs_api_status = None, cs_error_message = None, cs_created_at = None,
      cs_updated_at = None\<rparr>"

text \<open>The INSERT of a new row gives a column without a value its default of \<^verbatim>\<open>models.py\<close>.\<close>

definition insert_defaults :: "CacheStatus \<Rightarrow> datetime \<Rightarrow> CacheStatus" where
  "insert_defaults c now_reading =
     c\<lparr>cs_total_records := key_or_null (cs_total_records c) (Some 0),
       cs_failed_attempts := key_or_null (cs_failed_attempts c) (Some 0),
       cs_is_stale := key_or_null (cs_is_stale c) (Some False),
       cs_api_status := key_or_null (cs_api_status c) (Some ''unknown''),
       cs_created_at := key_or_null (cs_created_at c) (Some now_reading),
       cs_updated_at := key_or_null (cs_updated_at c) (Some now_reading)\<rparr>"

text \<open>
  The assignments of \<^verbatim>\<open>_update_cache_status\<close> between the lookup and the commit.
  \<^verbatim>\<open>cache_status.failed_attempts += 1\<close> raises \<^verbatim>\<open>TypeError\<close> when the attribute is \<open>None\<close>.
\<close>

definition record_outcome :: "CacheStatus \<Rightarrow> int \<Rightarrow> datetime \<Rightarrow> py_error + CacheStatus" where
  "record_outcome cache_status success_count now_reading =
     (let c1 = cache_status\<lparr>cs_last_api_fetch := Some now_reading,
                            cs_total_records := Some success_count\<rparr>
      in case (if success_count > 0 then
                 Inr (c1\<lparr>cs_last_successful_fetch := Some now_reading,
                         cs_api_status := Some ''active'',
                         cs_is_stale := Some False,
                         cs_failed_attempts := Some 0\<rparr>)
               else
                 (case cs_failed_attempts c1 of
                    None \<Rightarrow> Inl TypeError
                  | Some n \<Rightarrow>
                      (let c2 = c1\<lparr>cs_failed_attempts := Some (n + 1)\<rparr>
                       in if n + 1 \<ge> 3
                          then Inr (c2\<lparr>cs_api_status := Some ''down'', cs_is_stale := Some True\<rparr>)
                          else Inr c2))) of
           Inl err \<Rightarrow> Inl err
         | Inr c3 \<Rightarrow> Inr (c3\<lparr>cs_updated_at := Some now_reading\<rparr>))"

text \<open>
  \<^verbatim>\<open>_update_cache_status\<close>: returns nothing; its handler rolls back and does not re-raise.
  The result is the session afterwards.
\<close>

definition update_cache_status :: "Session \<Rightarrow> string \<Rightarrow> int \<Rightarrow> int \<Rightarrow> env \<Rightarrow> Session" where
  "update_cache_status db data_type success_count total_count e =
     (case find (\<lambda>c. cs_data_type c = data_type) (tbl_cache_status db) of
        Some cache_status \<Rightarrow>
          (case record_outcome cache_status success_count (now e) of
             Inl err \<Rightarrow> db
           | Inr c \<Rightarrow>
               if commit_fails db then db
               else db\<lparr>tbl_cache_status :=
                         update_first (\<lambda>c. cs_data_type c = data_type) (\<lambda>_. c)
                           (tbl_cache_status db)\<rparr>)
      | None \<Rightarrow>
          (case record_outcome (CacheStatus_init data_type) success_count (now e) of
             Inl err \<Rightarrow> db
           | Inr c \<Rightarrow>
               if commit_fails db then db
               else db\<lparr>tbl_cache_status :=
                         tbl_cache_status db @ [insert_defaults c (now e)]\<rparr>))"

section \<open>Bulk refresh\<close>

text \<open>
  The loop of \<^verbatim>\<open>refresh_all_data\<close> over the district codes: a fetch that gives nothing is
  skipped, an exception of the save is logged and the loop goes on.
\<close>

fun refresh_loop ::
  "MGNREGAService \<Rightarrow> int \<Rightarrow> env \<Rightarrow> string list \<Rightarrow> Session \<Rightarrow> int \<Rightarrow> Session \<times> int" where
  "refresh_loop self current_year e [] db success_count = (db, success_count)"
| "refresh_loop self current_year e (district_code # rest) db success_count =
     (case data_client self district_code current_year of
        None \<Rightarrow> refresh_loop self current_year e rest db success_count
      | Some d \<Rightarrow>
          if truthy (Some d) then
            (case save_district_data_to_cache db d district_code current_year e of
               (Inr formatted, db') \<Rightarrow> refresh_loop self current_year e rest db' (success_count + 1)
             | (Inl err, db') \<Rightarrow> refresh_loop self current_year e rest db' success_count)
          else refresh_loop self current_year e rest db success_count)"

text \<open>
  \<^verbatim>\<open>refresh_all_data\<close>: the distinct district codes of the table, the loop for the current
  year, then the health record for \<^verbatim>\<open>"district_data"\<close>. The result is the session afterwards.
\<close>

definition refresh_all_data :: "MGNREGAService \<Rightarrow> Session \<Rightarrow> env \<Rightarrow> Session" where
  "refresh_all_data self db e =
     (let district_codes = remdups (map dd_district_code (tbl_district_data db));
          current_year = this_year e
      in case refresh_loop self current_year e district_codes db 0 of
           (db', success_count) \<Rightarrow>
             update_cache_status db' ''district_data'' success_count
               (int (length district_codes)) e)"

section \<open>Properties of the store\<close>

text \<open>At most one row of \<^verbatim>\<open>district_data\<close> for each pair of district code and year.\<close>

definition unique_keys :: "Session \<Rightarrow> bool" where
  "unique_keys db \<longleftrightarrow> distinct (map (\<lambda>r. (dd_district_code r, dd_year r)) (tbl_district_data db))"

text \<open>Every row of \<^verbatim>\<open>district_data\<close> has its \<^verbatim>\<open>is_cached\<close> column set.\<close>

definition all_is_cached :: "Session \<Rightarrow> bool" where
  "all_is_cached db \<longleftrightarrow> list_all (\<lambda>r. dd_is_cached r = Some True) (tbl_district_data db)"

text \<open>
  A dictionary is for the key it was requested for when its \<^verbatim>\<open>district_code\<close> and \<^verbatim>\<open>year\<close>,
  where present, are those of the request, as in \<^verbatim>\<open>_generate_sample_district_data\<close>.
\<close>

definition for_key :: "fetched \<Rightarrow> string \<Rightarrow> int \<Rightarrow> bool" where
  "for_key data district_code year \<longleftrightarrow>
     (fd_district_code data = None \<or> fd_district_code data = Some district_code) \<and>
     (fd_year data = None \<or> fd_year data = Some year)"

definition client_for_key :: "(string \<Rightarrow> int \<Rightarrow> fetched option) \<Rightarrow> bool" where
  "client_for_key client \<longleftrightarrow>
     (\<forall>district_code year d. client district_code year = Some d \<longrightarrow> for_key d district_code year)"

text \<open>
  The row holds every value of the dictionary: each key that is present is the value of the
  column of that name.
\<close>

definition row_has_values :: "fetched \<Rightarrow> DistrictData \<Rightarrow> bool" where
  "row_has_values data r \<longleftrightarrow>
     (case fd_district_code data of None \<Rightarrow> True | Some v \<Rightarrow> dd_district_code r = v) \<and>
     (case fd_district_name data of None \<Rightarrow> True | Some v \<Rightarrow> dd_district_name r = v) \<and>
     (case fd_state_name data of None \<Rightarrow> True | Some v \<Rightarrow> dd_state_name r = v) \<and>
     (case fd_year data of None \<Rightarrow> True | Some v \<Rightarrow> dd_year r = v) \<and>
     (case fd_total_job_cards data of
        None \<Rightarrow> True
      | Some v \<Rightarrow> dd_total_job_cards r = Some v) \<and>
     (case fd_active_job_cards data of
        None \<Rightarrow> True
      | Some v \<Rightarrow> dd_active_job_cards r = Some v) \<and>
     (case fd_total_workers data of
        None \<Rightarrow> True
      | Some v \<Rightarrow> dd_total_workers r = Some v) \<and>
     (case fd_active_workers data of
        None \<Rightarrow> True
      | Some v \<Rightarrow> dd_active_workers r = Some v) \<and>
     (case fd_total_person_days data of
        None \<Rightarrow> True
      | Some v \<Rightarrow> dd_total_person_days r = Some v) \<and>
     (case fd_average_days_per_household data of
        None \<Rightarrow> True
      | Some v \<Rightarrow> dd_average_days_per_household r = Some v) \<and>
     (case fd_households_completed_100_days data of
        None \<Rightarrow> True
      | Some v \<Rightarrow> dd_households_completed_100_days r = Some v) \<and>
     (case fd_total_expenditure data of
        None \<Rightarrow> True
      | Some v \<Rightarrow> dd_total_expenditure r = Some v) \<and>
     (case fd_wage_expenditure data of
        None \<Rightarrow> True
      | Some v \<Rightarrow> dd_wage_expenditure r = Some v) \<and>
     (case fd_material_expenditure data of
        None \<Rightarrow> True
      | Some v \<Rightarrow> dd_material_expenditure r = Some v) \<and>
     (case fd_average_wage_rate data of
        None \<Rightarrow> True
      | Some v \<Rightarrow> dd_average_wage_rate r = Some v) \<and>
     (case fd_total_works data of
        None \<Rightarrow> True
      | Some v \<Rightarrow> dd_total_works r = Some v) \<and>
     (case fd_completed_works data of
        None \<Rightarrow> True
      | Some v \<Rightarrow> dd_completed_works r = Some v) \<and>
     (case fd_ongoing_works data of
        None \<Rightarrow> True
      | Some v \<Rightarrow> dd_ongoing_works r = Some v) \<and>
     (case fd_employment_provided_percentage data of
        None \<Rightarrow> True
      | Some v \<Rightarrow> dd_employment_provided_percentage r = Some v) \<and>
     (case fd_timely_payment_percentage data of
        None \<Rightarrow> True
      | Some v \<Rightarrow> dd_timely_payment_percentage r = Some v) \<and>
     (case fd_data_source data of
        None \<Rightarrow> True
      | Some v \<Rightarrow> dd_data_source r = Some v) \<and>
     (case fd_is_cached data of
        None \<Rightarrow> True
      | Some v \<Rightarrow> dd_is_cached r = Some v)"

text \<open>
  The read path goes to the data client: no row is cached for the key, or the cached row is
  stale.
\<close>

definition cache_miss :: "MGNREGAService \<Rightarrow> Session \<Rightarrow> string \<Rightarrow> int \<Rightarrow> env \<Rightarrow> bool" where
  "cache_miss self db district_code year e =
     (case get_cached_district_data db district_code year of
        None \<Rightarrow> True
      | Some c \<Rightarrow> is_cache_stale self (dd_last_updated c) (now e))"

text \<open>The same for the statistics of a district.\<close>

definition stats_cache_miss :: "MGNREGAService \<Rightarrow> Session \<Rightarrow> string \<Rightarrow> env \<Rightarrow> bool" where
  "stats_cache_miss self db district_code e =
     (case find (\<lambda>s. ds_district_code s = district_code) (tbl_district_stats db) of
        None \<Rightarrow> True
      | Some c \<Rightarrow> is_cache_stale self (ds_last_updated c) (now e))"

text \<open>The value of a nullable float column, NULL counting as 0.\<close>

definition value_or_0 :: "pyfloat option \<Rightarrow> pyfloat" where
  "value_or_0 x = (case x of None \<Rightarrow> Fin 0 | Some v \<Rightarrow> v)"

text \<open>
  \<open>r\<close> is \<open>x\<close> rounded to two decimal places: the float nearest to one of the two multiples
  of 0.01 around \<open>x\<close>, one that is at most 0.005 from \<open>x\<close>; an infinity and NaN are their own
  roundings.
\<close>

definition rounded_to_hundredths :: "pyfloat \<Rightarrow> pyfloat \<Rightarrow> bool" where
  "rounded_to_hundredths r x =
     (case x of
        Fin v \<Rightarrow>
          (let k = \<lfloor>v * 100\<rfloor>
           in (r = double (of_int k / 100) \<and> v - of_int k / 100 \<le> 1 / 200) \<or>
              (r = double (of_int (k + 1) / 100) \<and> of_int (k + 1) / 100 - v \<le> 1 / 200))
      | _ \<Rightarrow> r = x)"

section \<open>Example data\<close>

text \<open>A client whose every fetch fails, and one that answers as the repository's client does.\<close>

definition failing_client :: "string \<Rightarrow> int \<Rightarrow> fetched option" where
  "failing_client district_code year = None"

definition sample_data :: "string \<Rightarrow> int \<Rightarrow> fetched" where
  "sample_data district_code year =
     \<lparr>fd_district_code = Some district_code, fd_district_name = Some ''Anantapur'',
      fd_state_name = Some ''Andhra Pradesh'', fd_year = Some year,
      fd_total_job_cards = Some 200000, fd_active_job_cards = Some 100000,
      fd_total_workers = Some 210000, fd_active_workers = Some 90000,
      fd_total_person_days = Some (Fin 1000), fd_average_days_per_household = Some (Fin 54),
      fd_households_completed_100_days = Some 20000, fd_total_expenditure = Some (Fin 50),
      fd_wage_expenditure = Some (Fin 35), fd_material_expenditure = Some (Fin 15),
      fd_average_wage_rate = Some (Fin 200), fd_total_works = Some 100000,
      fd_completed_works = Some 70000, fd_ongoing_works = Some 30000,
      fd_employment_provided_percentage = Some (Fin 54),
      fd_timely_payment_percentage = Some (Fin 80),
      fd_data_source = Some ''data.gov.in'', fd_is_cached = Some True\<rparr>"

definition sample_client :: "string \<Rightarrow> int \<Rightarrow> fetched option" where
  "sample_client district_code year = Some (sample_data district_code year)"

definition sample_row :: "int \<Rightarrow> real \<Rightarrow> datetime \<Rightarrow> DistrictData" where
  "sample_row year person_days updated =
     \<lparr>dd_district_code = ''AP001'', dd_district_name = ''Anantapur'',
      dd_state_name = ''Andhra Pradesh'', dd_year = year,
      dd_total_job_cards = Some 200000, dd_active_job_cards = Some 100000,
      dd_total_workers = Some 210000, dd_active_workers = Some 90000,
      dd_total_person_days = Some (Fin person_days),
      dd_average_days_per_household = Some (Fin 54),
      dd_households_completed_100_days = Some 20000, dd_total_expenditure = Some (Fin 50),
      dd_wage_expenditure = Some (Fin 35), dd_material_expenditure = Some (Fin 15),
      dd_average_wage_rate = Some (Fin 200), dd_total_works = Some 100000,
      dd_completed_works = Some 70000, dd_ongoing_works = Some 30000,
      dd_employment_provided_percentage = Some (Fin 54),
      dd_timely_payment_percentage = Some (Fin 80),
      dd_data_source = Some ''data.gov.in'', dd_last_updated = Some updated,
      dd_is_cached = Some True\<rparr>"

definition store :: "DistrictData list \<Rightarrow> bool \<Rightarrow> Session" where
  "store rows failing =
     \<lparr>tbl_district_data = rows, tbl_district_stats = [], tbl_cache_status = [],
      commit_fails = failing\<rparr>"

definition reading :: "datetime \<Rightarrow> env" where
  "reading t = \<lparr>now = t, this_year = 2024\<rparr>"

text \<open>The statistics of a district whose only row is \<open>sample_row\<close>.\<close>

definition sample_stats :: "datetime \<Rightarrow> stats_dict" where
  "sample_stats calculated =
     \<lparr>sd_district_name = ''Anantapur'', sd_state_name = ''Andhra Pradesh'',
      sd_performance_score = double 61.8, sd_employment_rank = 0, sd_expenditure_rank = 0,
      sd_employment_trend = Fin 0, sd_expenditure_trend = Fin 0,
      sd_state_average_comparison = Fin 0, sd_national_average_comparison = Fin 0,
      sd_total_beneficiaries = 90000, sd_total_investment = Fin 50,
      sd_calculation_date = calculated\<rparr>"

text \<open>
  A row whose three metrics of the performance score are the floats written \<open>e\<close>, \<open>t\<close> and
  \<open>a\<close> in decimal.
\<close>

definition metrics_row :: "real \<Rightarrow> real \<Rightarrow> real \<Rightarrow> DistrictData" where
  "metrics_row e t a =
     (sample_row 2024 1000 0)
       \<lparr>dd_employment_provided_percentage := Some (double e),
        dd_timely_payment_percentage := Some (double t),
        dd_average_days_per_household := Some (double a)\<rparr>"

section \<open>Lemmas about floats\<close>

lemma round_half_even_near: "\<bar>of_int (round_half_even x) - x\<bar> \<le> 1 / 2"
  unfolding round_half_even_def Let_def
  by (auto simp add: abs_le_iff)

lemma pow2_powi: "pow2 k = 2 powi k"
  by (simp add: pow2_def power_int_def inverse_eq_divide power_one_over)

lemma pow2_pos: "0 < pow2 k"
  by (simp add: pow2_def)

lemma ilog2_bounds:
  assumes "0 < x"
  shows "pow2 (ilog2 x) \<le> x \<and> x < pow2 (ilog2 x + 1)"
proof (cases "1 \<le> x")
  case True
  define n where "n = nat \<lfloor>x\<rfloor>"
  from True have n: "0 < n" "real n \<le> x" "x < real n + 1"
    by (simp_all add: n_def)
  define l where "l = floorlog 2 n"
  from floorlog_bounds [of n 2] n have b: "2 ^ (l - 1) \<le> n" "n < 2 ^ l"
    by (simp_all add: l_def)
  from b n have l: "0 < l"
    by (cases l) auto
  from b(1) have "(2::real) ^ (l - 1) \<le> real n"
    by (metis of_nat_le_iff of_nat_numeral of_nat_power)
  with n(2) have lo: "(2::real) ^ (l - 1) \<le> x"
    by linarith
  from b(2) have "real n + 1 \<le> 2 ^ l"
    by (metis Suc_leI of_nat_Suc of_nat_le_iff of_nat_numeral of_nat_power add.commute)
  with n(3) have hi: "x < 2 ^ l"
    by linarith
  from True l have "ilog2 x = int l - 1"
    by (simp add: ilog2_def l_def n_def)
  moreover from l have "nat (int l - 1) = l - 1" "nat (int l) = l"
    by simp_all
  ultimately show ?thesis
    using lo hi l by (simp add: pow2_def)
next
  case False
  with assms have x: "0 < x" "x < 1"
    by simp_all
  define m where "m = nat (\<lceil>1 / x\<rceil> - 1)"
  from x have "1 < 1 / x"
    by simp
  then have c: "2 \<le> \<lceil>1 / x\<rceil>"
    by linarith
  then have m: "0 < m" "real m < 1 / x" "1 / x \<le> real m + 1"
    by (simp_all add: m_def) linarith+
  define l where "l = floorlog 2 m"
  from floorlog_bounds [of m 2] m have b: "2 ^ (l - 1) \<le> m" "m < 2 ^ l"
    by (simp_all add: l_def)
  from b m have l: "0 < l"
    by (cases l) auto
  from b(1) have b1: "(2::real) ^ (l - 1) \<le> real m"
    by (metis of_nat_le_iff of_nat_numeral of_nat_power)
  from b(2) have b2: "real m + 1 \<le> 2 ^ l"
    by (metis Suc_leI of_nat_Suc of_nat_le_iff of_nat_numeral of_nat_power add.commute)
  from False have i: "ilog2 x = - int l"
    by (simp add: ilog2_def l_def m_def)
  from m(3) b2 have "1 / x \<le> 2 ^ l"
    by linarith
  with x have lo: "1 / 2 ^ l \<le> x"
    by (simp add: field_simps)
  from m(2) b1 have "2 ^ (l - 1) < 1 / x"
    by linarith
  with x have hi: "x < 1 / 2 ^ (l - 1)"
    by (simp add: field_simps)
  show ?thesis
  proof (cases "l = 1")
    case True
    with lo hi i show ?thesis
      by (simp add: pow2_def)
  next
    case False
    with l have "nat (int l - 1) = l - 1" "\<not> 0 \<le> 1 - int l" "\<not> 0 \<le> - int l"
      by simp_all
    with lo hi i l show ?thesis
      by (simp add: pow2_def)
  qed
qed

lemma ilog2_eqI:
  assumes "pow2 k \<le> x" and "x < pow2 (k + 1)"
  shows "ilog2 x = k"
proof -
  from assms pow2_pos [of k] have "0 < x"
    by simp
  from ilog2_bounds [OF this] have b: "2 powi (ilog2 x) \<le> x" "x < 2 powi (ilog2 x + 1)"
    by (simp_all add: pow2_powi)
  from assms have a: "2 powi k \<le> x" "x < 2 powi (k + 1)"
    by (simp_all add: pow2_powi)
  from a(1) b(2) have "(2::real) powi k < 2 powi (ilog2 x + 1)"
    by simp
  with power_int_increasing [of "ilog2 x + 1" k "2::real"] have "k < ilog2 x + 1"
    by (cases "k < ilog2 x + 1") simp_all
  moreover
  from b(1) a(2) have "(2::real) powi (ilog2 x) < 2 powi (k + 1)"
    by simp
  with power_int_increasing [of "k + 1" "ilog2 x" "2::real"] have "ilog2 x < k + 1"
    by (cases "ilog2 x < k + 1") simp_all
  ultimately show ?thesis
    by simp
qed

lemma double_by_exponent:
  assumes "pow2 k \<le> \<bar>x\<bar>" and "\<bar>x\<bar> < pow2 (k + 1)"
  shows "double x =
           (let ulp = pow2 (max k (- 1022) - 52);
                r = of_int (round_half_even (x / ulp)) * ulp
            in if 2 ^ 1024 \<le> \<bar>r\<bar> then (if 0 < x then PInf else NInf) else Fin r)"
proof -
  from assms(1) pow2_pos [of k] have "x \<noteq> 0"
    by auto
  moreover from assms have "ilog2 \<bar>x\<bar> = k"
    by (rule ilog2_eqI)
  ultimately show ?thesis
    by (simp add: double_def)
qed

lemma round_half_even_bound:
  assumes "\<bar>y\<bar> \<le> of_int n"
  shows "\<bar>round_half_even y\<bar> \<le> n"
proof -
  define f where "f = \<lfloor>y\<rfloor>"
  from assms have f: "- n \<le> f" "f \<le> n"
    by (simp_all add: f_def abs_le_iff floor_le_iff le_floor_iff)
  have either: "round_half_even y = f \<or> round_half_even y = f + 1"
    by (simp add: round_half_even_def Let_def f_def)
  show ?thesis
  proof (cases "f = n")
    case True
    with assms have "y - of_int f \<le> 0"
      by (simp add: abs_le_iff)
    then have "round_half_even y = f"
      by (simp add: round_half_even_def Let_def f_def)
    with f show ?thesis
      by simp
  next
    case False
    with f either show ?thesis
      by auto
  qed
qed

lemma pow2_add: "pow2 (a + b) = pow2 a * pow2 b"
  by (simp add: pow2_powi power_int_add)

lemma pow2_mono: "a \<le> b \<Longrightarrow> pow2 a \<le> pow2 b"
  by (simp add: pow2_powi power_int_increasing)

text \<open>
  A finite \<open>double x\<close> is a multiple of the spacing of the floats around \<open>x\<close> with a significand
  of at most 53 bits, and is within half that spacing of \<open>x\<close>.
\<close>

lemma double_nearest:
  assumes "double x = Fin r"
  shows "\<exists>m. r = of_int m * pow2 (max (ilog2 \<bar>x\<bar>) (- 1022) - 52) \<and> \<bar>m\<bar> \<le> 2 ^ 53 \<and>
             \<bar>r - x\<bar> \<le> pow2 (max (ilog2 \<bar>x\<bar>) (- 1022) - 52) / 2"
proof (cases "x = 0")
  case True
  with assms have "r = 0"
    by (simp add: double_def)
  with True pow2_pos [of "max (ilog2 \<bar>x\<bar>) (- 1022) - 52"] show ?thesis
    by (intro exI [of _ 0]) simp
next
  case False
  define e where "e = max (ilog2 \<bar>x\<bar>) (- 1022)"
  define ulp where "ulp = pow2 (e - 52)"
  define m where "m = round_half_even (x / ulp)"
  have ulp: "0 < ulp"
    by (simp add: ulp_def pow2_pos)
  from assms False have r: "r = of_int m * ulp"
    by (simp add: double_def Let_def m_def ulp_def e_def split: if_splits)
  from False have "0 < \<bar>x\<bar>"
    by simp
  from ilog2_bounds [OF this] have "\<bar>x\<bar> < pow2 (ilog2 \<bar>x\<bar> + 1)"
    by simp
  also have "\<dots> \<le> pow2 (e + 1)"
    by (rule pow2_mono) (simp add: e_def)
  also have "\<dots> = pow2 (e - 52) * pow2 53"
    using pow2_add [of "e - 52" 53] by (simp add: add.commute)
  also have "\<dots> = ulp * 2 ^ 53"
    by (simp add: ulp_def pow2_def)
  finally have "\<bar>x / ulp\<bar> \<le> 2 ^ 53"
    using ulp by (simp add: field_simps abs_mult)
  then have "\<bar>x / ulp\<bar> \<le> of_int (2 ^ 53)"
    by simp
  then have m: "\<bar>m\<bar> \<le> 2 ^ 53"
    unfolding m_def by (rule round_half_even_bound)
  have "\<bar>of_int m - x / ulp\<bar> \<le> 1 / 2"
    unfolding m_def by (rule round_half_even_near)
  then have "\<bar>of_int m - x / ulp\<bar> * ulp \<le> 1 / 2 * ulp"
    using ulp by (intro mult_right_mono) simp_all
  moreover have "\<bar>of_int m - x / ulp\<bar> * ulp = \<bar>of_int m * ulp - x\<bar>"
    using ulp by (simp add: abs_mult [symmetric] field_simps del: abs_mult)
  ultimately have "\<bar>r - x\<bar> \<le> ulp / 2"
    by (simp add: r)
  with r m show ?thesis
    unfolding ulp_def e_def by blast
qed

lemma double_not_NaN: "double x \<noteq> NaN"
  by (simp add: double_def Let_def)

lemma py_round_zero: "py_round (Fin 0) n = Fin 0"
  by (simp add: py_round_def round_half_even_def double_def)

lemma py_round_rounded: "rounded_to_hundredths (py_round x 2) x"
proof (cases x)
  case (Fin v)
  define k where "k = \<lfloor>v * 100\<rfloor>"
  have "round_half_even (v * 100) = k \<and> v * 100 - of_int k \<le> 1 / 2 \<or>
        round_half_even (v * 100) = k + 1 \<and> of_int (k + 1) - v * 100 \<le> 1 / 2"
    unfolding round_half_even_def Let_def k_def by auto
  then have "py_round x 2 = double (of_int k / 100) \<and> v - of_int k / 100 \<le> 1 / 200 \<or>
             py_round x 2 = double (of_int (k + 1) / 100) \<and> of_int (k + 1) / 100 - v \<le> 1 / 200"
    using Fin by (auto simp add: py_round_def field_simps)
  with Fin show ?thesis
    by (simp add: rounded_to_hundredths_def Let_def k_def)
qed (simp_all add: rounded_to_hundredths_def py_round_def)

lemmas float_eval = double_def ilog2_def compute_floorlog pow2_def round_half_even_def

section \<open>Lemmas about the cache store\<close>

lemma format_district_data_id: "format_district_data r = r"
  by (simp add: format_district_data_def)

lemma all_is_cached_lookup:
  assumes "all_is_cached db" and "get_cached_district_data db district_code year = Some c"
  shows "dd_is_cached c = Some True"
proof -
  from assms(2) have "c \<in> set (tbl_district_data db)"
    by (auto simp add: get_cached_district_data_def find_Some_iff)
  with assms(1) show ?thesis
    by (simp add: all_is_cached_def list_all_iff)
qed

lemma save_existing:
  assumes "get_cached_district_data db district_code year = Some existing"
  shows "save_district_data_to_cache db d district_code year e =
           (if commit_fails db then (Inl OperationalError, db)
            else (Inr ((setattr_all d existing)\<lparr>dd_last_updated := Some (now e)\<rparr>),
                  db\<lparr>tbl_district_data :=
                       update_first (key_matches district_code year)
                         (\<lambda>_. (setattr_all d existing)\<lparr>dd_last_updated := Some (now e)\<rparr>)
                         (tbl_district_data db)\<rparr>))"
  using assms
  by (simp add: save_district_data_to_cache_def format_district_data_id Let_def)

lemma save_new:
  assumes "get_cached_district_data db district_code year = None"
  shows "save_district_data_to_cache db d district_code year e =
           (case new_district_data d district_code year (now e) of
              Inl err \<Rightarrow> (Inl err, db)
            | Inr r \<Rightarrow>
                if commit_fails db then (Inl OperationalError, db)
                else (Inr r, db\<lparr>tbl_district_data := tbl_district_data db @ [r]\<rparr>))"
  using assms
  by (simp add: save_district_data_to_cache_def format_district_data_id split: sum.splits)

lemma new_district_data_Inr:
  assumes "new_district_data d district_code year n = Inr r"
  shows "dd_district_code r = district_code \<and> dd_year r = year \<and>
         dd_last_updated r = Some n \<and>
         dd_is_cached r = key_or_null (fd_is_cached d) (Some True)"
proof (cases "fd_district_name d")
  case None
  with assms show ?thesis by (simp add: new_district_data_def)
next
  case name: (Some district_name)
  show ?thesis
  proof (cases "fd_state_name d")
    case None
    with assms name show ?thesis by (simp add: new_district_data_def)
  next
    case (Some state_name)
    with assms name show ?thesis by (auto simp add: new_district_data_def)
  qed
qed

lemma save_failure_rolls_back:
  assumes "fst (save_district_data_to_cache db d district_code year e) = Inl err"
  shows "snd (save_district_data_to_cache db d district_code year e) = db"
proof (cases "get_cached_district_data db district_code year")
  case None
  with assms show ?thesis
    by (auto simp add: save_new split: sum.splits if_splits)
next
  case (Some existing)
  with assms show ?thesis
    by (auto simp add: save_existing split: if_splits)
qed

lemma save_success_is_cached:
  assumes "save_district_data_to_cache db d district_code year e = (Inr r, db')"
  shows "dd_is_cached r =
           (case fd_is_cached d of
              Some b \<Rightarrow> Some b
            | None \<Rightarrow>
                (case get_cached_district_data db district_code year of
                   None \<Rightarrow> Some True
                 | Some c \<Rightarrow> dd_is_cached c))"
proof (cases "get_cached_district_data db district_code year")
  case None
  with assms have "new_district_data d district_code year (now e) = Inr r"
    by (auto simp add: save_new split: sum.splits if_splits)
  with None new_district_data_Inr [of d district_code year "now e" r] show ?thesis
    by (simp add: key_or_null_def split: option.splits)
next
  case (Some existing)
  with assms have "r = (setattr_all d existing)\<lparr>dd_last_updated := Some (now e)\<rparr>"
    by (auto simp add: save_existing split: if_splits)
  with Some show ?thesis
    by (simp add: setattr_all_def key_or_null_def split: option.splits)
qed

lemma get_district_data_fetch:
  assumes "cache_miss self db district_code (year_or_now year e) e"
    and "data_client self district_code (year_or_now year e) = Some d"
    and "d \<noteq> empty_dict"
  shows "get_district_data self db district_code year e =
           (case save_district_data_to_cache db d district_code (year_or_now year e) e of
              (Inr formatted, db') \<Rightarrow> (Some formatted, db', [(district_code, year_or_now year e)])
            | (Inl err, db') \<Rightarrow> (None, db', [(district_code, year_or_now year e)]))"
  using assms
  by (auto simp add: get_district_data_def cache_miss_def truthy_def Let_def
      split: option.splits)

lemma sample_lookup:
  "get_cached_district_data (store [sample_row 2024 p t] f) ''AP001''
     (year_or_now (Some 2024) (reading n)) = Some (sample_row 2024 p t)"
  by (simp add: get_cached_district_data_def store_def key_matches_def sample_row_def
      year_or_now_def)

lemma empty_lookup:
  "get_cached_district_data (store [] f) district_code year = None"
  by (simp add: get_cached_district_data_def store_def)

lemma sample_new_row:
  "new_district_data (sample_data ''AP001'' 2024) ''AP001'' 2024 n = Inr (sample_row 2024 1000 n)"
  by (simp add: new_district_data_def sample_data_def sample_row_def key_or_null_def)

lemma sample_data_not_empty: "sample_data district_code year \<noteq> empty_dict"
  by (simp add: sample_data_def empty_dict_def)

section \<open>Staleness policy: the boundary\<close>

text \<open>
  C3, as stated, at the boundary: a record whose age is exactly the maximum age (24 hours
  after an update at instant 0) would be stale if staleness were \<open>now - last_updated \<ge> max_age\<close>;
  \<^verbatim>\<open>_is_cache_stale\<close> says it is not.
\<close>

theorem stale_boundary_counterexample:
  "\<not> (is_cache_stale (MGNREGAService_init failing_client) (Some 0) (timedelta_hours 24)
        \<longleftrightarrow> timedelta_hours 24 - 0
              \<ge> timedelta_hours (cache_duration_hours (MGNREGAService_init failing_client)))"
  by (simp add: is_cache_stale_def MGNREGAService_init_def timedelta_hours_def)

text \<open>
  C3, amended: \<^verbatim>\<open>_is_cache_stale\<close> is true for a missing timestamp, and for a present one
  exactly when \<open>now - last_updated > max_age\<close>: a record whose age equals the maximum age is
  still fresh.
\<close>

theorem is_cache_stale_iff:
  "is_cache_stale self None n \<and>
   (is_cache_stale self (Some t) n \<longleftrightarrow> n - t > timedelta_hours (cache_duration_hours self))"
  by (auto simp add: is_cache_stale_def)

section \<open>Read path: fresh cache, fallback, absence\<close>

text \<open>
  C2: when the row cached for the key is younger than the maximum age, \<^verbatim>\<open>get_district_data\<close>
  returns exactly that row, leaves the session as it was and sends no request to the data
  client.
\<close>

theorem fresh_cache_served_without_fetch:
  assumes "get_cached_district_data db district_code (year_or_now year e) = Some c"
    and "dd_last_updated c = Some t"
    and "now e - t < timedelta_hours (cache_duration_hours self)"
  shows "get_district_data self db district_code year e = (Some c, db, [])"
  using assms by (simp add: get_district_data_def is_cache_stale_def format_district_data_id)

theorem fresh_cache_served_without_fetch_witness:
  "get_district_data (MGNREGAService_init sample_client) (store [sample_row 2024 1000 0] False)
     ''AP001'' (Some 2024) (reading (timedelta_hours 23))
   = (Some (sample_row 2024 1000 0), store [sample_row 2024 1000 0] False, [])"
proof -
  have b: "dd_last_updated (sample_row 2024 1000 0) = Some 0"
    by (simp add: sample_row_def)
  have c: "now (reading (timedelta_hours 23)) - 0
             < timedelta_hours (cache_duration_hours (MGNREGAService_init sample_client))"
    by (simp add: reading_def timedelta_hours_def MGNREGAService_init_def)
  show ?thesis
    by (rule fresh_cache_served_without_fetch [OF sample_lookup b c])
qed

text \<open>
  C1: when the data client gives nothing for the request, \<^verbatim>\<open>get_district_data\<close> returns the
  row cached for the key if there is one, stale or not, and that row carries the
  \<^verbatim>\<open>is_cached\<close> flag; it returns \<open>None\<close> if there is none, and never a made-up record. The
  session is left as it was. The flag is the stored column, set on every row of the table.
\<close>

theorem fallback_to_cache_or_absent:
  assumes "\<not> truthy (data_client self district_code (year_or_now year e))"
    and "all_is_cached db"
  shows "(case get_cached_district_data db district_code (year_or_now year e) of
            Some c \<Rightarrow> fst (get_district_data self db district_code year e) = Some c \<and>
                      dd_is_cached c = Some True
          | None \<Rightarrow> fst (get_district_data self db district_code year e) = None) \<and>
         fst (snd (get_district_data self db district_code year e)) = db"
  using assms
  by (auto simp add: get_district_data_def format_district_data_id Let_def
      all_is_cached_lookup split: option.splits)

theorem fallback_to_cache_or_absent_witness:
  "fst (get_district_data (MGNREGAService_init failing_client)
          (store [sample_row 2024 1000 0] False) ''AP001'' (Some 2024)
          (reading (timedelta_hours 48))) = Some (sample_row 2024 1000 0) \<and>
   dd_is_cached (sample_row 2024 1000 0) = Some True \<and>
   is_cache_stale (MGNREGAService_init failing_client)
     (dd_last_updated (sample_row 2024 1000 0)) (now (reading (timedelta_hours 48))) \<and>
   fst (get_district_data (MGNREGAService_init failing_client) (store [] False) ''AP001''
          (Some 2024) (reading (timedelta_hours 48))) = None"
proof -
  have fails: "\<not> truthy (data_client (MGNREGAService_init failing_client) ''AP001''
                   (year_or_now (Some 2024) (reading (timedelta_hours 48))))"
    by (simp add: truthy_def MGNREGAService_init_def failing_client_def)
  have flags: "all_is_cached (store [sample_row 2024 1000 0] False)"
    by (simp add: all_is_cached_def store_def sample_row_def)
  have none: "all_is_cached (store [] False)"
    by (simp add: all_is_cached_def store_def)
  have stale: "is_cache_stale (MGNREGAService_init failing_client)
                 (dd_last_updated (sample_row 2024 1000 0)) (now (reading (timedelta_hours 48)))"
    by (simp add: is_cache_stale_def MGNREGAService_init_def sample_row_def reading_def
        timedelta_hours_def)
  from fallback_to_cache_or_absent [OF fails flags] fallback_to_cache_or_absent [OF fails none]
  show ?thesis
    by (simp add: sample_lookup empty_lookup stale)
qed

section \<open>Read path: the record returned after a fetch\<close>

text \<open>
  C7, as stated, fails: with no row cached and a client that answers as the repository's
  client does (\<^verbatim>\<open>"is_cached": True\<close>), the record returned after the fetch has
  \<^verbatim>\<open>is_cached\<close> true, not false.
\<close>

theorem fresh_fetch_flag_counterexample:
  "map_option dd_is_cached
     (fst (get_district_data (MGNREGAService_init sample_client) (store [] False) ''AP001''
             (Some 2024) (reading 5))) = Some (Some True)"
  by (simp add: get_district_data_def MGNREGAService_init_def sample_client_def store_def
      year_or_now_def get_cached_district_data_def truthy_def sample_data_def empty_dict_def
      save_district_data_to_cache_def new_district_data_def key_or_null_def
      format_district_data_def reading_def)

text \<open>
  C7, amended: when the read path fetches and the save succeeds, the record returned is the
  saved row, and its \<^verbatim>\<open>is_cached\<close> is the value the fetched dictionary gives for that key;
  when the dictionary has no such key it is \<open>True\<close> for a new row and the stored flag for an
  overwritten one. The flag does not mark the record as not served from the cache.
\<close>

theorem fresh_fetch_carries_stored_flag:
  assumes "cache_miss self db district_code (year_or_now year e) e"
    and "data_client self district_code (year_or_now year e) = Some d"
    and "d \<noteq> empty_dict"
    and "save_district_data_to_cache db d district_code (year_or_now year e) e = (Inr r, db')"
  shows "get_district_data self db district_code year e =
           (Some r, db', [(district_code, year_or_now year e)]) \<and>
         dd_is_cached r =
           (case fd_is_cached d of
              Some b \<Rightarrow> Some b
            | None \<Rightarrow>
                (case get_cached_district_data db district_code (year_or_now year e) of
                   None \<Rightarrow> Some True
                 | Some c \<Rightarrow> dd_is_cached c))"
  using get_district_data_fetch [OF assms(1-3)] save_success_is_cached [OF assms(4)] assms(4)
  by simp

theorem fresh_fetch_carries_stored_flag_witness:
  "get_district_data (MGNREGAService_init sample_client) (store [] False) ''AP001'' (Some 2024)
     (reading 5)
   = (Some (sample_row 2024 1000 5), store [sample_row 2024 1000 5] False, [(''AP001'', 2024)]) \<and>
   dd_is_cached (sample_row 2024 1000 5) = Some True"
proof -
  have yr: "year_or_now (Some 2024) (reading 5) = 2024"
    by (simp add: year_or_now_def)
  have miss: "cache_miss (MGNREGAService_init sample_client) (store [] False) ''AP001''
                (year_or_now (Some 2024) (reading 5)) (reading 5)"
    by (simp add: cache_miss_def empty_lookup)
  have fetched: "data_client (MGNREGAService_init sample_client) ''AP001''
                   (year_or_now (Some 2024) (reading 5)) = Some (sample_data ''AP001'' 2024)"
    by (simp add: MGNREGAService_init_def sample_client_def yr)
  have saved: "save_district_data_to_cache (store [] False) (sample_data ''AP001'' 2024) ''AP001''
                 (year_or_now (Some 2024) (reading 5)) (reading 5)
               = (Inr (sample_row 2024 1000 5), store [sample_row 2024 1000 5] False)"
    by (simp add: yr save_new [OF empty_lookup] sample_new_row) (simp add: store_def reading_def)
  from fresh_fetch_carries_stored_flag [OF miss fetched sample_data_not_empty saved]
  show ?thesis
    by (simp add: yr sample_data_def)
qed

text \<open>
  C8, as stated, fails: with a session whose commit raises, the save re-raises
  (\<^verbatim>\<open>OperationalError\<close>) and \<^verbatim>\<open>get_district_data\<close> returns \<open>None\<close> to its caller, the
  same result as an absent record.
\<close>

theorem write_back_failure_counterexample:
  "fst (save_district_data_to_cache (store [] True) (sample_data ''AP001'' 2024) ''AP001'' 2024
          (reading 5)) = Inl OperationalError \<and>
   get_district_data (MGNREGAService_init sample_client) (store [] True) ''AP001''
     (Some 2024) (reading 5) = (None, store [] True, [(''AP001'', 2024)])"
  by (simp add: get_district_data_def MGNREGAService_init_def sample_client_def store_def
      year_or_now_def get_cached_district_data_def truthy_def sample_data_def empty_dict_def
      save_district_data_to_cache_def new_district_data_def key_or_null_def
      format_district_data_def reading_def)

text \<open>
  C8, amended: when the save of the freshly fetched record fails, the session is rolled back
  (it is as before the call) and \<^verbatim>\<open>_save_district_data_to_cache\<close> re-raises, but
  \<^verbatim>\<open>get_district_data\<close> catches the exception and returns \<open>None\<close>.
\<close>

theorem write_back_failure_returns_none:
  assumes "cache_miss self db district_code (year_or_now year e) e"
    and "data_client self district_code (year_or_now year e) = Some d"
    and "d \<noteq> empty_dict"
    and "fst (save_district_data_to_cache db d district_code (year_or_now year e) e) = Inl err"
  shows "snd (save_district_data_to_cache db d district_code (year_or_now year e) e) = db \<and>
         get_district_data self db district_code year e =
           (None, db, [(district_code, year_or_now year e)])"
  using get_district_data_fetch [OF assms(1-3)] save_failure_rolls_back [OF assms(4)] assms(4)
  by (cases "save_district_data_to_cache db d district_code (year_or_now year e) e") simp

theorem write_back_failure_returns_none_witness:
  "get_district_data (MGNREGAService_init sample_client) (store [sample_row 2024 1 0] True)
     ''AP001'' (Some 2024) (reading (timedelta_hours 48))
   = (None, store [sample_row 2024 1 0] True, [(''AP001'', 2024)])"
proof -
  have yr: "year_or_now (Some 2024) (reading (timedelta_hours 48)) = 2024"
    by (simp add: year_or_now_def)
  have miss: "cache_miss (MGNREGAService_init sample_client) (store [sample_row 2024 1 0] True)
                ''AP001'' (year_or_now (Some 2024) (reading (timedelta_hours 48)))
                (reading (timedelta_hours 48))"
    by (simp add: cache_miss_def sample_lookup)
      (simp add: is_cache_stale_def MGNREGAService_init_def sample_row_def reading_def
        timedelta_hours_def)
  have fetched: "data_client (MGNREGAService_init sample_client) ''AP001''
                   (year_or_now (Some 2024) (reading (timedelta_hours 48)))
                 = Some (sample_data ''AP001'' 2024)"
    by (simp add: MGNREGAService_init_def sample_client_def yr)
  have failed: "fst (save_district_data_to_cache (store [sample_row 2024 1 0] True)
                       (sample_data ''AP001'' 2024) ''AP001''
                       (year_or_now (Some 2024) (reading (timedelta_hours 48)))
                       (reading (timedelta_hours 48))) = Inl OperationalError"
    by (simp add: save_existing [OF sample_lookup]) (simp add: store_def)
  from write_back_failure_returns_none [OF miss fetched sample_data_not_empty failed]
  show ?thesis
    by (simp add: yr)
qed

section \<open>Lemmas about the statistics\<close>

lemma trend_never_zero_division: "trend c p \<noteq> Inl ZeroDivisionError"
  by (auto simp add: trend_def py_truediv_def split: option.splits)

lemma trend_present:
  "trend (Some c) (Some p) =
     Inr (if flt (Fin 0) p then fmul (fdiv (fsub c p) p) (Fin 100) else Fin 0)"
  by (auto simp add: trend_def py_truediv_def)

lemma trend_Inl:
  "trend c p = Inl err \<Longrightarrow> c = None \<or> p = None"
  by (auto simp add: trend_def py_truediv_def split: option.splits if_splits)

lemma fmul_100_not_NaN: "a \<noteq> NaN \<Longrightarrow> fmul a (Fin 100) \<noteq> NaN"
  by (cases a) (simp_all add: double_not_NaN)

lemma fdiv_positive_not_NaN: "a \<noteq> NaN \<Longrightarrow> 0 < y \<Longrightarrow> fdiv a (Fin y) \<noteq> NaN"
  by (cases a) (simp_all add: double_not_NaN)

lemma py_round_not_NaN: "a \<noteq> NaN \<Longrightarrow> py_round a n \<noteq> NaN"
  by (cases a) (simp_all add: py_round_def double_not_NaN)

lemma trend_value_not_NaN:
  assumes "0 < y"
  shows "py_round (fmul (fdiv (fsub (Fin x) (Fin y)) (Fin y)) (Fin 100)) 2 \<noteq> NaN"
proof -
  have "fsub (Fin x) (Fin y) \<noteq> NaN"
    by (simp add: fsub_def double_not_NaN)
  with assms show ?thesis
    by (intro py_round_not_NaN fmul_100_not_NaN fdiv_positive_not_NaN)
qed

lemma performance_score_eq:
  "performance_score r =
     fadd
       (fadd
          (fmul (value_or_0 (dd_employment_provided_percentage r)) (double 0.4))
          (fmul (value_or_0 (dd_timely_payment_percentage r)) (double 0.3)))
       (fmul
          (py_min
             (fmul (fdiv (value_or_0 (dd_average_days_per_household r)) (Fin 100)) (Fin 100))
             (Fin 100))
          (double 0.3))"
  by (simp add: performance_score_def float_or_zero_def value_or_0_def split: option.splits)

lemma calculate_body_score:
  assumes "calculate_body (latest # older) e = Inr (Some s)"
  shows "sd_performance_score s = py_round (performance_score latest) 2"
  using assms
  by (auto simp add: calculate_body_def split: list.splits sum.splits)

lemma calculate_body_not_empty: "calculate_body (latest # older) e \<noteq> Inr None"
  by (auto simp add: calculate_body_def split: list.splits sum.splits)

lemma calculate_body_Inl:
  assumes "calculate_body (latest # older) e = Inl err"
  shows "\<exists>previous rest. older = previous # rest \<and>
           (dd_total_person_days latest = None \<or> dd_total_expenditure latest = None \<or>
            dd_total_person_days previous = None \<or> dd_total_expenditure previous = None)"
  using assms
  by (auto simp add: calculate_body_def split: list.splits sum.splits dest: trend_Inl)

lemma calculate_body_never_zero_division: "calculate_body recent e \<noteq> Inl ZeroDivisionError"
  using trend_never_zero_division
  by (auto simp add: calculate_body_def split: list.splits sum.splits)

lemma calculate_body_single:
  "\<exists>s. calculate_body [latest] e = Inr (Some s) \<and>
        sd_employment_trend s = Fin 0 \<and> sd_expenditure_trend s = Fin 0"
  by (simp add: calculate_body_def py_round_zero)

lemma calculate_body_two:
  assumes "dd_total_person_days current = Some c" and "dd_total_person_days previous = Some p"
    and "dd_total_expenditure current = Some c'" and "dd_total_expenditure previous = Some p'"
  shows "\<exists>s. calculate_body (current # previous # rest) e = Inr (Some s) \<and>
             sd_employment_trend s =
               py_round (if flt (Fin 0) p then fmul (fdiv (fsub c p) p) (Fin 100) else Fin 0) 2 \<and>
             sd_expenditure_trend s =
               py_round (if flt (Fin 0) p' then fmul (fdiv (fsub c' p') p') (Fin 100)
                         else Fin 0) 2"
  using assms
  by (simp add: calculate_body_def trend_present)

lemma recent_data_head:
  assumes "recent_data db district_code = latest # older"
  shows "latest \<in> set (tbl_district_data db) \<and> dd_district_code latest = district_code \<and>
         (\<forall>r \<in> set (tbl_district_data db).
            dd_district_code r = district_code \<longrightarrow> dd_year r \<le> dd_year latest)"
proof -
  define rows where
    "rows = filter (\<lambda>r. dd_district_code r = district_code) (tbl_district_data db)"
  define xs where "xs = sort_key (\<lambda>r. - dd_year r) rows"
  from assms have take: "take 3 xs = latest # older"
    by (simp add: recent_data_def xs_def rows_def)
  then obtain rest where xs: "xs = latest # rest"
    by (cases xs) auto
  have "sorted (map (\<lambda>r. - dd_year r) xs)"
    by (simp add: xs_def)
  with xs have le: "\<forall>y \<in> set xs. dd_year y \<le> dd_year latest"
    by auto
  have set_xs: "set xs = set rows"
    by (simp add: xs_def)
  from xs set_xs have "latest \<in> set rows"
    by auto
  moreover from le set_xs have "\<forall>y \<in> set rows. dd_year y \<le> dd_year latest"
    by simp
  ultimately show ?thesis
    by (auto simp add: rows_def)
qed

section \<open>The statistics of the example rows\<close>

lemma sample_recent_one:
  "recent_data (store [sample_row y p t] f) ''AP001'' = [sample_row y p t]"
  by (simp add: recent_data_def store_def sample_row_def)

lemma sample_recent_two:
  "recent_data (store [sample_row 2023 p t, sample_row 2024 p' t'] f) ''AP001''
     = [sample_row 2024 p' t', sample_row 2023 p t]"
  by (simp add: recent_data_def store_def sample_row_def)

lemma metrics_recent_one:
  "recent_data (store [metrics_row x y z] f) ''AP001'' = [metrics_row x y z]"
  by (simp add: recent_data_def store_def metrics_row_def sample_row_def)

lemma sample_calculate:
  "calculate_district_stats (store [sample_row y p t] f) ''AP001'' (reading n)
     = Some (sample_stats n)"
  by (simp add: calculate_district_stats_def sample_recent_one calculate_body_def)
    (simp add: sample_row_def sample_stats_def performance_score_def float_or_zero_def
      or_zero_def py_min_def py_round_def reading_def float_eval)

lemma sample_cols:
  "dd_total_person_days (sample_row y p t) = Some (Fin p)"
  "dd_total_expenditure (sample_row y p t) = Some (Fin 50)"
  by (simp_all add: sample_row_def)

lemma metrics_cols:
  "value_or_0 (dd_employment_provided_percentage (metrics_row x y z)) = double x"
  "value_or_0 (dd_timely_payment_percentage (metrics_row x y z)) = double y"
  "value_or_0 (dd_average_days_per_household (metrics_row x y z)) = double z"
  by (simp_all add: metrics_row_def value_or_0_def)

text \<open>
  Employment 93.34, timely payment 10.54 and 31.99 days: the expression of the code, and the
  expression with \<open>min(a, 100)\<close> in place of \<open>min(a / 100 * 100, 100)\<close>.
\<close>

lemma score_of_code_93_34:
  "py_round
     (fadd
        (fadd (fmul (double 93.34) (double 0.4)) (fmul (double 10.54) (double 0.3)))
        (fmul (py_min (fmul (fdiv (double 31.99) (Fin 100)) (Fin 100)) (Fin 100)) (double 0.3)))
     2
   = double 50.09"
  by (simp add: py_min_def py_round_def float_eval)

lemma score_of_formula_93_34:
  "py_round
     (fadd
        (fadd (fmul (double 0.4) (double 93.34)) (fmul (double 0.3) (double 10.54)))
        (fmul (double 0.3) (py_min (double 31.99) (Fin 100))))
     2
   = double 50.1"
  by (simp add: py_min_def py_round_def float_eval)

lemma double_50_09_50_1: "double 50.09 \<noteq> double 50.1"
  by (simp add: float_eval)

lemma exact_93_34:
  "double 93.34 = Fin (3284109290771579 / 2 ^ 45) \<and>
   double 10.54 = Fin (1483373127265157 / 2 ^ 47) \<and>
   double 31.99 = Fin (9004384504973885 / 2 ^ 48) \<and>
   (50.095::real) <
     0.4 * (3284109290771579 / 2 ^ 45) + 0.3 * (1483373127265157 / 2 ^ 47) +
     0.3 * min (9004384504973885 / 2 ^ 48) 100"
  by (simp add: float_eval)

text \<open>Employment 50, timely payment 70.15 and 50 days.\<close>

lemma score_of_code_70_15:
  "py_round
     (fadd
        (fadd (fmul (double 50) (double 0.4)) (fmul (double 70.15) (double 0.3)))
        (fmul (py_min (fmul (fdiv (double 50) (Fin 100)) (Fin 100)) (Fin 100)) (double 0.3)))
     2
   = double 56.05"
  by (simp add: py_min_def py_round_def float_eval)

text \<open>The trends of the examples.\<close>

lemma trend_3_1:
  "py_round (fmul (fdiv (fsub (Fin 1) (Fin 3)) (Fin 3)) (Fin 100)) 2 = double (- 66.67)"
  by (simp add: fsub_def py_round_def float_eval)

lemma double_66_67:
  "double (- 66.67) \<noteq> fmul (fdiv (fsub (Fin 1) (Fin 3)) (Fin 3)) (Fin 100) \<and>
   double (- 66.67) \<noteq> Fin ((1 - 3) / 3 * 100)"
  by (simp add: fsub_def float_eval)

lemma trend_20000_20003:
  "py_round (fmul (fdiv (fsub (Fin 20003) (Fin 20000)) (Fin 20000)) (Fin 100)) 2 = double 0.01"
  by (simp add: fsub_def py_round_def float_eval)

lemma trend_800_1000:
  "py_round (fmul (fdiv (fsub (Fin 1000) (Fin 800)) (Fin 800)) (Fin 100)) 2 = Fin 25"
  by (simp add: fsub_def py_round_def float_eval)

lemma trend_50_50:
  "py_round (fmul (fdiv (fsub (Fin 50) (Fin 50)) (Fin 50)) (Fin 100)) 2 = Fin 0"
  by (simp add: fsub_def py_round_def float_eval)

text \<open>
  From 1 to \<open>2\<^sup>1\<^sup>0\<^sup>2\<^sup>3\<close>: the difference rounds to \<open>2\<^sup>1\<^sup>0\<^sup>2\<^sup>3\<close>, the quotient by 1 is exact, and the
  product by 100 is beyond the largest float.
\<close>

lemma big_difference: "fsub (Fin (2 ^ 1023)) (Fin 1) = Fin (2 ^ 1023)"
  using double_by_exponent [of 1022 "2 ^ 1023 - 1"]
  by (simp add: fsub_def pow2_def round_half_even_def)

lemma big_quotient: "fdiv (Fin (2 ^ 1023)) (Fin 1) = Fin (2 ^ 1023)"
  using double_by_exponent [of 1023 "2 ^ 1023"]
  by (simp add: pow2_def round_half_even_def)

lemma big_product: "fmul (Fin (2 ^ 1023)) (Fin 100) = PInf"
  using double_by_exponent [of 1029 "2 ^ 1023 * 100"]
  by (simp add: pow2_def round_half_even_def)

lemma trend_overflow:
  "py_round (fmul (fdiv (fsub (Fin (2 ^ 1023)) (Fin 1)) (Fin 1)) (Fin 100)) 2 = PInf"
  by (simp only: big_difference big_quotient big_product py_round_def pyfloat.case)

section \<open>Performance score and trends\<close>

text \<open>
  C5, as stated, fails. For a district whose only row has employment 93.34, timely payment
  10.54 and 31.99 days per household (the floats nearest to these decimals) the recomputed
  score is the float 50.09. The formula of the claim gives 50.1, however it is read: evaluated
  in floats and rounded with \<^verbatim>\<open>round\<close> it is the float 50.1, and its exact value on the three
  stored floats is above 50.095, which no rounding to two decimal places takes to 50.09.
\<close>

theorem performance_score_counterexample:
  "map_option sd_performance_score
     (calculate_district_stats (store [metrics_row 93.34 10.54 31.99] False) ''AP001''
        (reading 5)) = Some (double 50.09) \<and>
   py_round
     (fadd
        (fadd (fmul (double 0.4) (double 93.34)) (fmul (double 0.3) (double 10.54)))
        (fmul (double 0.3) (py_min (double 31.99) (Fin 100)))) 2 = double 50.1 \<and>
   double 50.09 \<noteq> double 50.1 \<and>
   double 93.34 = Fin (3284109290771579 / 2 ^ 45) \<and>
   double 10.54 = Fin (1483373127265157 / 2 ^ 47) \<and>
   double 31.99 = Fin (9004384504973885 / 2 ^ 48) \<and>
   (50.095::real) <
     0.4 * (3284109290771579 / 2 ^ 45) + 0.3 * (1483373127265157 / 2 ^ 47) +
     0.3 * min (9004384504973885 / 2 ^ 48) 100"
proof -
  have "sd_performance_score s =
          py_round
            (fadd
               (fadd (fmul (double 93.34) (double 0.4)) (fmul (double 10.54) (double 0.3)))
               (fmul
                  (py_min (fmul (fdiv (double 31.99) (Fin 100)) (Fin 100)) (Fin 100))
                  (double 0.3)))
            2"
    if "calculate_body [metrics_row 93.34 10.54 31.99] (reading 5) = Inr (Some s)" for s
    using calculate_body_score [OF that]
    by (simp only: performance_score_eq metrics_cols)
  then have "map_option sd_performance_score
          (calculate_district_stats (store [metrics_row 93.34 10.54 31.99] False) ''AP001''
             (reading 5)) = Some (double 50.09)"
    unfolding calculate_district_stats_def metrics_recent_one score_of_code_93_34
    by (simp add: calculate_body_def)
  with score_of_formula_93_34 double_50_09_50_1 exact_93_34 show ?thesis
    by (intro conjI) (simp_all only: simp_thms)
qed

text \<open>
  C5, amended: for a district with at least one cached row, the recomputed performance score
  is \<^verbatim>\<open>round(x, 2)\<close> of the float \<open>x\<close> that
  \<^verbatim>\<open>e * 0.4 + t * 0.3 + min(a / 100 * 100, 100) * 0.3\<close> evaluates to, every operation rounding
  to a float, on the employment percentage \<open>e\<close>, the timely payment percentage \<open>t\<close> and the
  average days per household \<open>a\<close> of the most recent row (a NULL metric counting as 0). The
  score is the float nearest to a multiple of 0.01 that is within 0.005 of \<open>x\<close>. The
  recomputation gives no statistics only when a trend operand of the two most recent rows is
  NULL (the comparison or the subtraction raises and the handler returns \<open>None\<close>).
\<close>

theorem performance_score_formula:
  assumes "recent_data db district_code = latest # older"
  shows "(case calculate_district_stats db district_code e of
            Some s \<Rightarrow>
              (let x =
                 fadd
                   (fadd
                      (fmul (value_or_0 (dd_employment_provided_percentage latest)) (double 0.4))
                      (fmul (value_or_0 (dd_timely_payment_percentage latest)) (double 0.3)))
                   (fmul
                      (py_min
                         (fmul
                            (fdiv (value_or_0 (dd_average_days_per_household latest)) (Fin 100))
                            (Fin 100))
                         (Fin 100))
                      (double 0.3))
               in sd_performance_score s = py_round x 2 \<and>
                  rounded_to_hundredths (sd_performance_score s) x)
          | None \<Rightarrow>
              (\<exists>previous rest. older = previous # rest \<and>
                 (dd_total_person_days latest = None \<or> dd_total_expenditure latest = None \<or>
                  dd_total_person_days previous = None \<or>
                  dd_total_expenditure previous = None))) \<and>
         latest \<in> set (tbl_district_data db) \<and> dd_district_code latest = district_code \<and>
         (\<forall>r \<in> set (tbl_district_data db).
            dd_district_code r = district_code \<longrightarrow> dd_year r \<le> dd_year latest)"
proof -
  have "case calculate_district_stats db district_code e of
          Some s \<Rightarrow>
            sd_performance_score s = py_round (performance_score latest) 2 \<and>
            rounded_to_hundredths (sd_performance_score s) (performance_score latest)
        | None \<Rightarrow>
            (\<exists>previous rest. older = previous # rest \<and>
               (dd_total_person_days latest = None \<or> dd_total_expenditure latest = None \<or>
                dd_total_person_days previous = None \<or> dd_total_expenditure previous = None))"
  proof (cases "calculate_body (latest # older) e")
    case (Inl err)
    with calculate_body_Inl [OF Inl] assms show ?thesis
      by (simp add: calculate_district_stats_def)
  next
    case (Inr result)
    with calculate_body_not_empty [of latest older e] obtain s where s: "result = Some s"
      by (cases result) auto
    with Inr calculate_body_score [of latest older e s] assms show ?thesis
      by (simp add: calculate_district_stats_def py_round_rounded)
  qed
  with recent_data_head [OF assms] show ?thesis
    unfolding Let_def performance_score_eq [symmetric]
    by (simp split: option.splits)
qed

theorem performance_score_formula_witness:
  "map_option sd_performance_score
     (calculate_district_stats (store [metrics_row 50 70.15 50] False) ''AP001'' (reading 5))
   = Some (double 56.05) \<and>
   rounded_to_hundredths (double 56.05)
     (fadd
        (fadd (fmul (double 50) (double 0.4)) (fmul (double 70.15) (double 0.3)))
        (fmul (py_min (fmul (fdiv (double 50) (Fin 100)) (Fin 100)) (Fin 100)) (double 0.3)))"
proof -
  let ?x =
    "fadd
       (fadd (fmul (double 50) (double 0.4)) (fmul (double 70.15) (double 0.3)))
       (fmul (py_min (fmul (fdiv (double 50) (Fin 100)) (Fin 100)) (Fin 100)) (double 0.3))"
  from performance_score_formula [OF metrics_recent_one, of 50 "70.15" 50 False "reading 5"]
  obtain s where
    "calculate_district_stats (store [metrics_row 50 70.15 50] False) ''AP001'' (reading 5)
       = Some s"
    and "sd_performance_score s = py_round ?x 2"
    and "rounded_to_hundredths (sd_performance_score s) ?x"
    by (auto simp add: metrics_cols Let_def split: option.splits)
  then show ?thesis
    by (simp only: score_of_code_70_15 option.map simp_thms)
qed

text \<open>
  C6, as stated, fails twice. With person-days 3 in 2023 and 1 in 2024 the employment trend of
  the statistics is the float -66.67, which is neither the float that
  \<^verbatim>\<open>(1 - 3) / 3 * 100\<close> evaluates to nor the exact quotient: the trend is rounded. With
  person-days 1 in 2023 and \<open>2\<^sup>1\<^sup>0\<^sup>2\<^sup>3\<close> in 2024, both finite floats, the product by 100
  overflows and the employment trend is infinite.
\<close>

theorem trend_rounding_counterexample:
  "map_option sd_employment_trend
     (calculate_district_stats (store [sample_row 2023 3 0, sample_row 2024 1 0] False) ''AP001''
        (reading 5)) = Some (double (- 66.67)) \<and>
   double (- 66.67) \<noteq> fmul (fdiv (fsub (Fin 1) (Fin 3)) (Fin 3)) (Fin 100) \<and>
   double (- 66.67) \<noteq> Fin ((1 - 3) / 3 * 100) \<and>
   map_option sd_employment_trend
     (calculate_district_stats
        (store [sample_row 2023 1 0, sample_row 2024 (2 ^ 1023) 0] False) ''AP001''
        (reading 5)) = Some PInf"
proof -
  have two: "\<exists>s. calculate_district_stats
                 (store [sample_row 2023 p 0, sample_row 2024 c 0] False) ''AP001'' (reading 5)
                 = Some s \<and>
               sd_employment_trend s =
                 py_round (fmul (fdiv (fsub (Fin c) (Fin p)) (Fin p)) (Fin 100)) 2"
    if "0 < p" for c p
    using calculate_body_two [OF sample_cols(1) sample_cols(1) sample_cols(2) sample_cols(2),
        of 2024 c 0 2023 p 0 "[]" "reading 5"] that
    by (auto simp add: calculate_district_stats_def sample_recent_two)
  from two [of 3 1] have "map_option sd_employment_trend
          (calculate_district_stats (store [sample_row 2023 3 0, sample_row 2024 1 0] False)
             ''AP001'' (reading 5)) = Some (double (- 66.67))"
    unfolding trend_3_1 by auto
  moreover
  from two [of 1 "2 ^ 1023"] have "map_option sd_employment_trend
          (calculate_district_stats
             (store [sample_row 2023 1 0, sample_row 2024 (2 ^ 1023) 0] False) ''AP001''
             (reading 5)) = Some PInf"
    unfolding trend_overflow by auto
  moreover note double_66_67
  ultimately show ?thesis
    by (intro conjI) (simp_all only: simp_thms)
qed

text \<open>
  C6, amended: with at least two cached rows whose person-days and expenditure are present,
  each trend is \<^verbatim>\<open>round(x, 2)\<close> of the float \<open>x\<close> that
  \<^verbatim>\<open>(current - previous) / previous * 100\<close> evaluates to when the previous value is positive,
  and exactly 0 otherwise (when it is 0, negative or NaN); the trend is the float nearest to a
  multiple of 0.01 within 0.005 of \<open>x\<close>, or \<open>x\<close> itself when \<open>x\<close> is infinite or NaN. No division
  by zero is ever attempted, and with finite stored values no trend is NaN; a trend can be
  infinite. With one row both trends are 0.
\<close>

theorem trends_guarded_and_rounded:
  assumes "recent_data db district_code = current # older"
  shows "calculate_body (recent_data db district_code) e \<noteq> Inl ZeroDivisionError \<and>
         (older = [] \<longrightarrow>
            (\<exists>s. calculate_district_stats db district_code e = Some s \<and>
                 sd_employment_trend s = Fin 0 \<and> sd_expenditure_trend s = Fin 0)) \<and>
         (\<forall>previous rest c p c' p'.
            older = previous # rest \<and>
            dd_total_person_days current = Some c \<and> dd_total_person_days previous = Some p \<and>
            dd_total_expenditure current = Some c' \<and> dd_total_expenditure previous = Some p' \<longrightarrow>
            (\<exists>s. calculate_district_stats db district_code e = Some s \<and>
                 (let x = (if flt (Fin 0) p then fmul (fdiv (fsub c p) p) (Fin 100) else Fin 0)
                  in sd_employment_trend s = py_round x 2 \<and>
                     rounded_to_hundredths (sd_employment_trend s) x \<and>
                     (\<not> flt (Fin 0) p \<longrightarrow> sd_employment_trend s = Fin 0) \<and>
                     (\<forall>u v. c = Fin u \<and> p = Fin v \<longrightarrow> sd_employment_trend s \<noteq> NaN)) \<and>
                 (let x' = (if flt (Fin 0) p' then fmul (fdiv (fsub c' p') p') (Fin 100)
                            else Fin 0)
                  in sd_expenditure_trend s = py_round x' 2 \<and>
                     rounded_to_hundredths (sd_expenditure_trend s) x' \<and>
                     (\<not> flt (Fin 0) p' \<longrightarrow> sd_expenditure_trend s = Fin 0) \<and>
                     (\<forall>u v. c' = Fin u \<and> p' = Fin v \<longrightarrow> sd_expenditure_trend s \<noteq> NaN))))"
proof (intro conjI allI impI)
  show "calculate_body (recent_data db district_code) e \<noteq> Inl ZeroDivisionError"
    by (rule calculate_body_never_zero_division)
next
  assume "older = []"
  with assms calculate_body_single [of current e]
  show "\<exists>s. calculate_district_stats db district_code e = Some s \<and>
            sd_employment_trend s = Fin 0 \<and> sd_expenditure_trend s = Fin 0"
    by (auto simp add: calculate_district_stats_def)
next
  fix previous rest c p c' p'
  assume h: "older = previous # rest \<and>
             dd_total_person_days current = Some c \<and> dd_total_person_days previous = Some p \<and>
             dd_total_expenditure current = Some c' \<and> dd_total_expenditure previous = Some p'"
  define x where "x = (if flt (Fin 0) p then fmul (fdiv (fsub c p) p) (Fin 100) else Fin 0)"
  define x' where
    "x' = (if flt (Fin 0) p' then fmul (fdiv (fsub c' p') p') (Fin 100) else Fin 0)"
  from h have "\<exists>s. calculate_body (current # previous # rest) e = Inr (Some s) \<and>
                 sd_employment_trend s = py_round x 2 \<and> sd_expenditure_trend s = py_round x' 2"
    unfolding x_def x'_def by (intro calculate_body_two) simp_all
  with assms h obtain s where s: "calculate_district_stats db district_code e = Some s"
    and t: "sd_employment_trend s = py_round x 2" and t': "sd_expenditure_trend s = py_round x' 2"
    by (auto simp add: calculate_district_stats_def)
  have "rounded_to_hundredths (py_round x 2) x" "rounded_to_hundredths (py_round x' 2) x'"
    by (rule py_round_rounded)+
  moreover have "\<not> flt (Fin 0) p \<longrightarrow> py_round x 2 = Fin 0"
    "\<not> flt (Fin 0) p' \<longrightarrow> py_round x' 2 = Fin 0"
    by (simp_all add: x_def x'_def py_round_zero)
  moreover have "\<forall>u v. c = Fin u \<and> p = Fin v \<longrightarrow> py_round x 2 \<noteq> NaN"
    "\<forall>u v. c' = Fin u \<and> p' = Fin v \<longrightarrow> py_round x' 2 \<noteq> NaN"
    by (simp_all add: x_def x'_def py_round_zero trend_value_not_NaN)
  ultimately
  show "\<exists>s. calculate_district_stats db district_code e = Some s \<and>
            (let x = (if flt (Fin 0) p then fmul (fdiv (fsub c p) p) (Fin 100) else Fin 0)
             in sd_employment_trend s = py_round x 2 \<and>
                rounded_to_hundredths (sd_employment_trend s) x \<and>
                (\<not> flt (Fin 0) p \<longrightarrow> sd_employment_trend s = Fin 0) \<and>
                (\<forall>u v. c = Fin u \<and> p = Fin v \<longrightarrow> sd_employment_trend s \<noteq> NaN)) \<and>
            (let x' = (if flt (Fin 0) p' then fmul (fdiv (fsub c' p') p') (Fin 100)
                       else Fin 0)
             in sd_expenditure_trend s = py_round x' 2 \<and>
                rounded_to_hundredths (sd_expenditure_trend s) x' \<and>
                (\<not> flt (Fin 0) p' \<longrightarrow> sd_expenditure_trend s = Fin 0) \<and>
                (\<forall>u v. c' = Fin u \<and> p' = Fin v \<longrightarrow> sd_expenditure_trend s \<noteq> NaN))"
    using s t t' unfolding Let_def x_def [symmetric] x'_def [symmetric] by simp
qed

theorem trends_guarded_and_rounded_witness:
  "map_option sd_employment_trend
     (calculate_district_stats (store [sample_row 2023 20000 0, sample_row 2024 20003 0] False)
        ''AP001'' (reading 5)) = Some (double 0.01) \<and>
   map_option sd_expenditure_trend
     (calculate_district_stats (store [sample_row 2023 20000 0, sample_row 2024 20003 0] False)
        ''AP001'' (reading 5)) = Some (Fin 0) \<and>
   map_option sd_employment_trend
     (calculate_district_stats (store [sample_row 2023 800 0, sample_row 2024 1000 0] False)
        ''AP001'' (reading 5)) = Some (Fin 25) \<and>
   map_option sd_employment_trend
     (calculate_district_stats (store [sample_row 2023 0 0, sample_row 2024 1000 0] False)
        ''AP001'' (reading 5)) = Some (Fin 0)"
proof -
  from trends_guarded_and_rounded [OF sample_recent_two, of 20000 0 20003 0 False "reading 5"]
  obtain s where "calculate_district_stats
        (store [sample_row 2023 20000 0, sample_row 2024 20003 0] False) ''AP001'' (reading 5)
        = Some s"
    and "sd_employment_trend s =
           py_round (fmul (fdiv (fsub (Fin 20003) (Fin 20000)) (Fin 20000)) (Fin 100)) 2"
    and "sd_expenditure_trend s =
           py_round (fmul (fdiv (fsub (Fin 50) (Fin 50)) (Fin 50)) (Fin 100)) 2"
    by (fastforce simp add: sample_cols Let_def)
  moreover
  from trends_guarded_and_rounded [OF sample_recent_two, of 800 0 1000 0 False "reading 5"]
  obtain s' where "calculate_district_stats
        (store [sample_row 2023 800 0, sample_row 2024 1000 0] False) ''AP001'' (reading 5)
        = Some s'"
    and "sd_employment_trend s' =
           py_round (fmul (fdiv (fsub (Fin 1000) (Fin 800)) (Fin 800)) (Fin 100)) 2"
    by (fastforce simp add: sample_cols Let_def)
  moreover
  from trends_guarded_and_rounded [OF sample_recent_two, of 0 0 1000 0 False "reading 5"]
  obtain s'' where "calculate_district_stats
        (store [sample_row 2023 0 0, sample_row 2024 1000 0] False) ''AP001'' (reading 5)
        = Some s''"
    and "sd_employment_trend s'' = Fin 0"
    by (fastforce simp add: sample_cols Let_def)
  ultimately show ?thesis
    by (simp only: trend_20000_20003 trend_800_1000 trend_50_50 option.map simp_thms)
qed

section \<open>Lemmas about single-row updates\<close>

lemma length_update_first: "length (update_first P f xs) = length xs"
  by (induction xs) auto

lemma map_update_first:
  assumes "\<And>x. P x \<Longrightarrow> k (f x) = k x"
  shows "map k (update_first P f xs) = map k xs"
  using assms by (induction xs) auto

lemma find_update_first:
  assumes "P y" and "find P xs = Some x"
  shows "find P (update_first P (\<lambda>_. y) xs) = Some y"
  using assms by (induction xs) (auto split: if_splits)

lemma find_append_new:
  assumes "find P xs = None" and "P y"
  shows "find P (xs @ [y]) = Some y"
  using assms by (induction xs) (auto split: if_splits)

section \<open>Statistics survive a failed save\<close>

lemma save_stats_rolls_back:
  "commit_fails db \<Longrightarrow> save_district_stats_to_cache db stats district_code e = db"
  by (simp add: save_district_stats_to_cache_def split: option.splits)

text \<open>
  C10: when the statistics are recomputed, \<^verbatim>\<open>get_district_stats\<close> returns them to its caller
  whatever the save does; when the commit of the save fails, \<^verbatim>\<open>_save_district_stats_to_cache\<close>
  rolls back and returns normally, so the session, and with it any statistics row stored
  before, is unchanged.
\<close>

theorem stats_returned_when_save_fails:
  assumes "stats_cache_miss self db district_code e"
    and "calculate_district_stats db district_code e = Some stats"
  shows "fst (get_district_stats self db district_code e) = Some (Calculated stats) \<and>
         (commit_fails db \<longrightarrow>
            save_district_stats_to_cache db stats district_code e = db \<and>
            get_district_stats self db district_code e = (Some (Calculated stats), db))"
  using assms
  by (auto simp add: get_district_stats_def stats_cache_miss_def save_stats_rolls_back
      split: option.splits)

theorem stats_returned_when_save_fails_witness:
  "commit_fails (store [sample_row 2024 1000 0] True) \<and>
   get_district_stats (MGNREGAService_init failing_client) (store [sample_row 2024 1000 0] True)
     ''AP001'' (reading 5)
   = (Some (Calculated (sample_stats 5)), store [sample_row 2024 1000 0] True)"
proof -
  have miss: "stats_cache_miss (MGNREGAService_init failing_client)
                (store [sample_row 2024 1000 0] True) ''AP001'' (reading 5)"
    by (simp add: stats_cache_miss_def store_def)
  have fails: "commit_fails (store [sample_row 2024 1000 0] True)"
    by (simp add: store_def)
  from stats_returned_when_save_fails [OF miss sample_calculate] fails
  show ?thesis
    by simp
qed

section \<open>Health tracker\<close>

lemma record_outcome_success:
  assumes "0 < success_count"
  shows "record_outcome c success_count n =
           Inr (c\<lparr>cs_last_api_fetch := Some n, cs_total_records := Some success_count,
                  cs_last_successful_fetch := Some n, cs_api_status := Some ''active'',
                  cs_is_stale := Some False, cs_failed_attempts := Some 0,
                  cs_updated_at := Some n\<rparr>)"
  using assms by (simp add: record_outcome_def)

lemma record_outcome_failure:
  assumes "\<not> 0 < success_count" and "cs_failed_attempts c = Some k"
  shows "record_outcome c success_count n =
           Inr (if 3 \<le> k + 1
                then c\<lparr>cs_last_api_fetch := Some n, cs_total_records := Some success_count,
                       cs_failed_attempts := Some (k + 1), cs_api_status := Some ''down'',
                       cs_is_stale := Some True, cs_updated_at := Some n\<rparr>
                else c\<lparr>cs_last_api_fetch := Some n, cs_total_records := Some success_count,
                       cs_failed_attempts := Some (k + 1), cs_updated_at := Some n\<rparr>)"
  using assms by (simp add: record_outcome_def Let_def)

lemma record_outcome_no_counter:
  assumes "\<not> 0 < success_count" and "cs_failed_attempts c = None"
  shows "record_outcome c success_count n = Inl TypeError"
  using assms by (simp add: record_outcome_def)

lemma update_cache_status_no_row:
  assumes "find (\<lambda>c. cs_data_type c = data_type) (tbl_cache_status db) = None"
    and "\<not> 0 < success_count"
  shows "update_cache_status db data_type success_count total_count e = db"
  using assms
  by (simp add: update_cache_status_def record_outcome_no_counter CacheStatus_init_def)

lemma update_cache_status_failure_step:
  assumes "find (\<lambda>c. cs_data_type c = data_type) (tbl_cache_status db) = Some c"
    and "cs_failed_attempts c = Some k"
    and "\<not> 0 < success_count"
    and "\<not> commit_fails db"
  shows "\<exists>c'. find (\<lambda>c. cs_data_type c = data_type)
                (tbl_cache_status (update_cache_status db data_type success_count total_count e))
              = Some c' \<and>
              cs_failed_attempts c' = Some (k + 1) \<and>
              cs_api_status c' = (if 3 \<le> k + 1 then Some ''down'' else cs_api_status c) \<and>
              cs_is_stale c' = (if 3 \<le> k + 1 then Some True else cs_is_stale c) \<and>
              \<not> commit_fails (update_cache_status db data_type success_count total_count e)"
proof -
  from assms(1) have dt: "cs_data_type c = data_type"
    by (auto simp add: find_Some_iff)
  define c' where
    "c' = (if 3 \<le> k + 1
           then c\<lparr>cs_last_api_fetch := Some (now e), cs_total_records := Some success_count,
                  cs_failed_attempts := Some (k + 1), cs_api_status := Some ''down'',
                  cs_is_stale := Some True, cs_updated_at := Some (now e)\<rparr>
           else c\<lparr>cs_last_api_fetch := Some (now e), cs_total_records := Some success_count,
                  cs_failed_attempts := Some (k + 1), cs_updated_at := Some (now e)\<rparr>)"
  have ro: "record_outcome c success_count (now e) = Inr c'"
    unfolding c'_def by (rule record_outcome_failure [OF assms(3) assms(2)])
  have dt': "cs_data_type c' = data_type"
    by (simp add: c'_def dt)
  have upd: "update_cache_status db data_type success_count total_count e =
               db\<lparr>tbl_cache_status :=
                    update_first (\<lambda>c. cs_data_type c = data_type) (\<lambda>_. c') (tbl_cache_status db)\<rparr>"
    using assms(1,4) ro by (simp add: update_cache_status_def)
  have "find (\<lambda>c. cs_data_type c = data_type)
          (update_first (\<lambda>c. cs_data_type c = data_type) (\<lambda>_. c') (tbl_cache_status db)) = Some c'"
    using dt' assms(1) by (rule find_update_first)
  with upd assms(4) show ?thesis
    by (auto simp add: c'_def)
qed

text \<open>
  C4 at a session with no health row: the update for a refresh without a success creates the
  object, fails on \<^verbatim>\<open>failed_attempts += 1\<close> (the attribute is \<open>None\<close> until the INSERT), and
  its handler rolls back, so no row is stored and no failure is counted, however often it is
  repeated. A refresh of an empty store is such an update.
\<close>

theorem first_failure_not_recorded:
  "record_outcome (CacheStatus_init ''district_data'') 0 5 = Inl TypeError \<and>
   update_cache_status (store [] False) ''district_data'' 0 0 (reading 5) = store [] False \<and>
   update_cache_status
     (update_cache_status
        (update_cache_status (store [] False) ''district_data'' 0 0 (reading 5))
        ''district_data'' 0 0 (reading 6))
     ''district_data'' 0 0 (reading 7) = store [] False \<and>
   refresh_all_data (MGNREGAService_init sample_client) (store [] False) (reading 5)
     = store [] False"
proof -
  have none: "find (\<lambda>c. cs_data_type c = ''district_data'') (tbl_cache_status (store [] False))
                = None"
    by (simp add: store_def)
  have step: "update_cache_status (store [] False) ''district_data'' 0 0 e = store [] False" for e
    by (rule update_cache_status_no_row [OF none]) simp
  have loop: "refresh_loop self y e [] db 0 = (db, 0)" for self y e db
    by simp
  have codes: "remdups (map dd_district_code (tbl_district_data (store [] False))) = []"
    by (simp add: store_def)
  show ?thesis
    by (simp add: step record_outcome_no_counter CacheStatus_init_def refresh_all_data_def
        codes)
qed

text \<open>
  With a health row whose counter is 0, three updates without a success in a row leave the
  counter at 3, the status at \<^verbatim>\<open>down\<close> and the stale flag set.
\<close>

theorem three_failures_flip_down:
  assumes "find (\<lambda>c. cs_data_type c = data_type) (tbl_cache_status db) = Some c"
    and "cs_failed_attempts c = Some 0"
    and "\<not> commit_fails db"
  shows "\<exists>c'. find (\<lambda>c. cs_data_type c = data_type)
                (tbl_cache_status
                   (update_cache_status
                      (update_cache_status
                         (update_cache_status db data_type 0 n1 e1) data_type 0 n2 e2)
                      data_type 0 n3 e3)) = Some c' \<and>
              cs_failed_attempts c' = Some 3 \<and> cs_api_status c' = Some ''down'' \<and>
              cs_is_stale c' = Some True"
proof -
  have z: "\<not> (0::int) < 0" by simp
  from update_cache_status_failure_step [OF assms(1) assms(2) z assms(3), of n1 e1]
  obtain c1 where s1:
    "find (\<lambda>c. cs_data_type c = data_type)
       (tbl_cache_status (update_cache_status db data_type 0 n1 e1)) = Some c1"
    "cs_failed_attempts c1 = Some 1"
    "\<not> commit_fails (update_cache_status db data_type 0 n1 e1)"
    by auto
  from update_cache_status_failure_step [OF s1(1) s1(2) z s1(3), of n2 e2]
  obtain c2 where s2:
    "find (\<lambda>c. cs_data_type c = data_type)
       (tbl_cache_status
          (update_cache_status (update_cache_status db data_type 0 n1 e1) data_type 0 n2 e2))
     = Some c2"
    "cs_failed_attempts c2 = Some 2"
    "\<not> commit_fails
         (update_cache_status (update_cache_status db data_type 0 n1 e1) data_type 0 n2 e2)"
    by auto
  from update_cache_status_failure_step [OF s2(1) s2(2) z s2(3), of n3 e3]
  show ?thesis
    by auto
qed

theorem three_failures_flip_down_witness:
  "\<exists>c'. find (\<lambda>c. cs_data_type c = ''district_data'')
           (tbl_cache_status
              (update_cache_status
                 (update_cache_status
                    (update_cache_status
                       (update_cache_status (store [] False) ''district_data'' 1 1 (reading 1))
                       ''district_data'' 0 1 (reading 2))
                    ''district_data'' 0 1 (reading 3))
                 ''district_data'' 0 1 (reading 4))) = Some c' \<and>
         cs_failed_attempts c' = Some 3 \<and> cs_api_status c' = Some ''down'' \<and>
         cs_is_stale c' = Some True"
proof -
  define db where
    "db = update_cache_status (store [] False) ''district_data'' 1 1 (reading 1)"
  define c where
    "c = insert_defaults
           ((CacheStatus_init ''district_data'')
              \<lparr>cs_last_api_fetch := Some 1, cs_total_records := Some 1,
               cs_last_successful_fetch := Some 1, cs_api_status := Some ''active'',
               cs_is_stale := Some False, cs_failed_attempts := Some 0,
               cs_updated_at := Some 1\<rparr>) 1"
  have db: "db = (store [] False)\<lparr>tbl_cache_status := [c]\<rparr>"
    by (simp add: db_def c_def update_cache_status_def record_outcome_success store_def
        reading_def)
  have a: "find (\<lambda>c. cs_data_type c = ''district_data'') (tbl_cache_status db) = Some c"
    by (simp add: db) (simp add: c_def insert_defaults_def CacheStatus_init_def)
  have b: "cs_failed_attempts c = Some 0"
    by (simp add: c_def insert_defaults_def key_or_null_def)
  have ok: "\<not> commit_fails db"
    by (simp add: db store_def)
  from three_failures_flip_down [OF a b ok, of 1 "reading 2" 1 "reading 3" 1 "reading 4"]
  show ?thesis
    by (simp add: db_def)
qed

section \<open>One row for each district and year\<close>

lemma key_matches_iff:
  "key_matches district_code year r \<longleftrightarrow> (dd_district_code r, dd_year r) = (district_code, year)"
  by (auto simp add: key_matches_def)

lemma lookup_Some_matches:
  assumes "get_cached_district_data db district_code year = Some c"
  shows "key_matches district_code year c"
  using assms by (auto simp add: get_cached_district_data_def find_Some_iff)

lemma lookup_None_key:
  assumes "get_cached_district_data db district_code year = None"
  shows "(district_code, year) \<notin> set (map (\<lambda>r. (dd_district_code r, dd_year r)) (tbl_district_data db))"
  using assms by (auto simp add: get_cached_district_data_def find_None_iff key_matches_def)

lemma setattr_all_key:
  assumes "for_key d district_code year" and "key_matches district_code year existing"
  shows "key_matches district_code year ((setattr_all d existing)\<lparr>dd_last_updated := t\<rparr>)"
  using assms
  by (auto simp add: for_key_def key_matches_def setattr_all_def key_or_def)

lemma unique_key_count:
  assumes "distinct (map k xs)" and "find (\<lambda>x. k x = v) xs = Some r"
  shows "length (filter (\<lambda>x. k x = v) xs) = 1"
  using assms
proof (induction xs)
  case Nil
  then show ?case by simp
next
  case (Cons x xs)
  show ?case
  proof (cases "k x = v")
    case True
    from Cons.prems(1) have "k x \<notin> k ` set xs"
      by simp
    with True have "\<forall>y \<in> set xs. k y \<noteq> v"
      by (metis imageI)
    then have "filter (\<lambda>x. k x = v) xs = []"
      by (simp add: filter_empty_conv)
    with True show ?thesis by simp
  next
    case False
    with Cons show ?thesis by simp
  qed
qed

lemma save_preserves_unique_keys:
  assumes "unique_keys db" and "for_key d district_code year"
  shows "unique_keys (snd (save_district_data_to_cache db d district_code year e))"
proof (cases "get_cached_district_data db district_code year")
  case None
  show ?thesis
  proof (cases "new_district_data d district_code year (now e)")
    case (Inl err)
    with None assms(1) show ?thesis by (simp add: save_new)
  next
    case (Inr r)
    from new_district_data_Inr [OF Inr]
    have "(dd_district_code r, dd_year r) = (district_code, year)" by simp
    with lookup_None_key [OF None] assms(1) Inr None show ?thesis
      by (simp add: save_new unique_keys_def)
  qed
next
  case (Some existing)
  define r where "r = (setattr_all d existing)\<lparr>dd_last_updated := Some (now e)\<rparr>"
  have "key_matches district_code year r"
    unfolding r_def by (rule setattr_all_key [OF assms(2) lookup_Some_matches [OF Some]])
  then have "map (\<lambda>r. (dd_district_code r, dd_year r))
               (update_first (key_matches district_code year) (\<lambda>_. r) (tbl_district_data db))
             = map (\<lambda>r. (dd_district_code r, dd_year r)) (tbl_district_data db)"
    by (intro map_update_first) (simp add: key_matches_def)
  with assms(1) Some show ?thesis
    by (simp add: save_existing unique_keys_def r_def)
qed

lemma save_success_stored:
  assumes "save_district_data_to_cache db d district_code year e = (Inr r, db')"
    and "for_key d district_code year"
  shows "get_cached_district_data db' district_code year = Some r \<and>
         dd_last_updated r = Some (now e) \<and>
         \<not> commit_fails db' \<and>
         (case get_cached_district_data db district_code year of
            None \<Rightarrow> length (tbl_district_data db') = Suc (length (tbl_district_data db))
          | Some existing \<Rightarrow>
              length (tbl_district_data db') = length (tbl_district_data db) \<and>
              r = (setattr_all d existing)\<lparr>dd_last_updated := Some (now e)\<rparr>)"
proof (cases "get_cached_district_data db district_code year")
  case None
  from assms(1) None have new: "new_district_data d district_code year (now e) = Inr r"
    and db': "db' = db\<lparr>tbl_district_data := tbl_district_data db @ [r]\<rparr>"
    and ok: "\<not> commit_fails db"
    by (auto simp add: save_new split: sum.splits if_splits)
  from new_district_data_Inr [OF new] have m: "key_matches district_code year r"
    and u: "dd_last_updated r = Some (now e)"
    by (simp_all add: key_matches_def)
  from None have "find (key_matches district_code year) (tbl_district_data db) = None"
    by (simp add: get_cached_district_data_def)
  from find_append_new [OF this m] None db' u ok show ?thesis
    by (simp add: get_cached_district_data_def)
next
  case (Some existing)
  from assms(1) Some have r: "r = (setattr_all d existing)\<lparr>dd_last_updated := Some (now e)\<rparr>"
    and db': "db' = db\<lparr>tbl_district_data :=
                update_first (key_matches district_code year) (\<lambda>_. r) (tbl_district_data db)\<rparr>"
    and ok: "\<not> commit_fails db"
    by (auto simp add: save_existing split: if_splits)
  have m: "key_matches district_code year r"
    unfolding r by (rule setattr_all_key [OF assms(2) lookup_Some_matches [OF Some]])
  from Some have "find (key_matches district_code year) (tbl_district_data db) = Some existing"
    by (simp add: get_cached_district_data_def)
  from find_update_first [OF m this] Some db' r ok show ?thesis
    by (simp add: get_cached_district_data_def length_update_first)
qed

lemma setattr_all_has_values:
  "row_has_values d ((setattr_all d existing)\<lparr>dd_last_updated := t\<rparr>)"
  unfolding row_has_values_def
  by (intro conjI) (simp_all add: setattr_all_def key_or_def key_or_null_def split: option.splits)

lemma get_district_data_session:
  "fst (snd (get_district_data self db district_code year e)) = db \<or>
   (\<exists>d. data_client self district_code (year_or_now year e) = Some d \<and>
        fst (snd (get_district_data self db district_code year e)) =
          snd (save_district_data_to_cache db d district_code (year_or_now year e) e))"
  by (auto simp add: get_district_data_def Let_def split: option.splits sum.splits prod.splits)

lemma get_district_data_preserves_unique_keys:
  assumes "unique_keys db" and "client_for_key (data_client self)"
  shows "unique_keys (fst (snd (get_district_data self db district_code year e)))"
proof -
  from get_district_data_session [of self db district_code year e]
  consider "fst (snd (get_district_data self db district_code year e)) = db"
    | d where "data_client self district_code (year_or_now year e) = Some d"
      and "fst (snd (get_district_data self db district_code year e)) =
             snd (save_district_data_to_cache db d district_code (year_or_now year e) e)"
    by blast
  then show ?thesis
  proof cases
    case 1
    with assms(1) show ?thesis by simp
  next
    case 2
    from assms(2) 2(1) have "for_key d district_code (year_or_now year e)"
      by (simp add: client_for_key_def)
    with assms(1) 2(2) show ?thesis
      by (simp add: save_preserves_unique_keys)
  qed
qed

lemma refresh_loop_preserves_unique_keys:
  assumes "unique_keys db" and "client_for_key (data_client self)"
  shows "unique_keys (fst (refresh_loop self y e codes db n))"
  using assms(1)
proof (induction codes arbitrary: db n)
  case Nil
  then show ?case by simp
next
  case (Cons district_code rest)
  show ?case
  proof (cases "data_client self district_code y")
    case None
    with Cons show ?thesis by simp
  next
    case (Some d)
    with assms(2) have "for_key d district_code y"
      by (simp add: client_for_key_def)
    with Cons.prems
    have u: "unique_keys (snd (save_district_data_to_cache db d district_code y e))"
      by (rule save_preserves_unique_keys)
    obtain res db' where s: "save_district_data_to_cache db d district_code y e = (res, db')"
      by (cases "save_district_data_to_cache db d district_code y e")
    with u have "unique_keys db'" by simp
    with Some s Cons.prems Cons.IH show ?thesis
      by (cases res) auto
  qed
qed

lemma update_cache_status_district_data:
  "tbl_district_data (update_cache_status db data_type success_count total_count e)
     = tbl_district_data db"
  by (simp add: update_cache_status_def split: option.splits sum.splits)

lemma get_district_stats_district_data:
  "tbl_district_data (snd (get_district_stats self db district_code e)) = tbl_district_data db"
  by (simp add: get_district_stats_def save_district_stats_to_cache_def Let_def
      split: option.splits)

lemma refresh_all_data_preserves_unique_keys:
  assumes "unique_keys db" and "client_for_key (data_client self)"
  shows "unique_keys (refresh_all_data self db e)"
proof -
  define codes where "codes = remdups (map dd_district_code (tbl_district_data db))"
  obtain db' n where l: "refresh_loop self (this_year e) e codes db 0 = (db', n)"
    by (cases "refresh_loop self (this_year e) e codes db 0")
  with refresh_loop_preserves_unique_keys [OF assms, of "this_year e" e codes 0]
  have "unique_keys db'" by simp
  then have "unique_keys (update_cache_status db' ''district_data'' n (int (length codes)) e)"
    by (simp add: unique_keys_def update_cache_status_district_data)
  with l show ?thesis
    by (simp add: refresh_all_data_def codes_def Let_def)
qed

text \<open>
  C9: every operation keeps at most one row of \<^verbatim>\<open>district_data\<close> for each district code and
  year, given that a fetched dictionary is for the key it was requested for (as the
  repository's client's is). A save for a key that has a row, whatever that row holds, inserts
  no row: the table keeps its length, the row found for the key afterwards is the one
  returned, it holds every value of the dictionary and the time of the save, and it is the only
  row for the key. Saving the same dictionary twice leaves exactly one row for the key, the
  second save overwrites the row of the first, and its \<^verbatim>\<open>last_updated\<close> is strictly later when
  the clock has advanced.
\<close>

theorem one_row_per_key:
  assumes "unique_keys db"
    and "client_for_key (data_client self)"
    and "for_key d district_code year"
  shows "unique_keys (snd (save_district_data_to_cache db d district_code year e)) \<and>
         unique_keys (fst (snd (get_district_data self db code y e))) \<and>
         unique_keys (refresh_all_data self db e) \<and>
         unique_keys (snd (get_district_stats self db code e)) \<and>
         unique_keys (update_cache_status db data_type success_count total_count e) \<and>
         (\<forall>existing r db'.
            get_cached_district_data db district_code year = Some existing \<and>
            save_district_data_to_cache db d district_code year e = (Inr r, db') \<longrightarrow>
            length (tbl_district_data db') = length (tbl_district_data db) \<and>
            length (filter (key_matches district_code year) (tbl_district_data db')) = 1 \<and>
            get_cached_district_data db' district_code year = Some r \<and>
            row_has_values d r \<and>
            dd_last_updated r = Some (now e)) \<and>
         (\<forall>r1 db1 r2 db2 e2.
            save_district_data_to_cache db d district_code year e = (Inr r1, db1) \<and>
            save_district_data_to_cache db1 d district_code year e2 = (Inr r2, db2) \<and>
            now e < now e2 \<longrightarrow>
            length (filter (key_matches district_code year) (tbl_district_data db2)) = 1 \<and>
            length (tbl_district_data db2) = length (tbl_district_data db1) \<and>
            get_cached_district_data db2 district_code year = Some r2 \<and>
            r2 = (setattr_all d r1)\<lparr>dd_last_updated := Some (now e2)\<rparr> \<and>
            row_has_values d r2 \<and>
            (\<exists>t1 t2. dd_last_updated r1 = Some t1 \<and> dd_last_updated r2 = Some t2 \<and> t1 < t2))"
proof (intro conjI allI impI)
  show "unique_keys (snd (save_district_data_to_cache db d district_code year e))"
    using assms(1,3) by (rule save_preserves_unique_keys)
  show "unique_keys (fst (snd (get_district_data self db code y e)))"
    using assms(1,2) by (rule get_district_data_preserves_unique_keys)
  show "unique_keys (refresh_all_data self db e)"
    using assms(1,2) by (rule refresh_all_data_preserves_unique_keys)
  show "unique_keys (snd (get_district_stats self db code e))"
    using assms(1) by (simp add: unique_keys_def get_district_stats_district_data)
  show "unique_keys (update_cache_status db data_type success_count total_count e)"
    using assms(1) by (simp add: unique_keys_def update_cache_status_district_data)
next
  fix existing r db'
  assume h: "get_cached_district_data db district_code year = Some existing \<and>
             save_district_data_to_cache db d district_code year e = (Inr r, db')"
  then have c: "get_cached_district_data db district_code year = Some existing"
    and s: "save_district_data_to_cache db d district_code year e = (Inr r, db')"
    by simp_all
  note f = save_success_stored [OF s assms(3)]
  from save_preserves_unique_keys [OF assms(1,3), of e] s have u: "unique_keys db'"
    by simp
  from f have "find (\<lambda>r. (dd_district_code r, dd_year r) = (district_code, year))
                 (tbl_district_data db') = Some r"
    by (simp add: get_cached_district_data_def key_matches_def [abs_def])
  with u have "length (filter (\<lambda>r. (dd_district_code r, dd_year r) = (district_code, year))
                         (tbl_district_data db')) = 1"
    unfolding unique_keys_def by (rule unique_key_count)
  then show "length (filter (key_matches district_code year) (tbl_district_data db')) = 1"
    by (simp add: key_matches_def [abs_def])
  from f c show "length (tbl_district_data db') = length (tbl_district_data db)"
    by simp
  from f show "get_cached_district_data db' district_code year = Some r"
    by simp
  from f c have "r = (setattr_all d existing)\<lparr>dd_last_updated := Some (now e)\<rparr>"
    by simp
  then show "row_has_values d r"
    by (simp only: setattr_all_has_values)
  from f show "dd_last_updated r = Some (now e)"
    by simp
next
  fix r1 db1 r2 db2 e2
  assume h: "save_district_data_to_cache db d district_code year e = (Inr r1, db1) \<and>
             save_district_data_to_cache db1 d district_code year e2 = (Inr r2, db2) \<and>
             now e < now e2"
  then have s1: "save_district_data_to_cache db d district_code year e = (Inr r1, db1)"
    and s2: "save_district_data_to_cache db1 d district_code year e2 = (Inr r2, db2)"
    and lt: "now e < now e2"
    by simp_all
  note f1 = save_success_stored [OF s1 assms(3)]
  note f2 = save_success_stored [OF s2 assms(3)]
  from save_preserves_unique_keys [OF assms(1,3), of e] s1 have u1: "unique_keys db1"
    by simp
  from save_preserves_unique_keys [OF u1 assms(3), of e2] s2 have u2: "unique_keys db2"
    by simp
  from f2 have "find (\<lambda>r. (dd_district_code r, dd_year r) = (district_code, year))
                  (tbl_district_data db2) = Some r2"
    by (simp add: get_cached_district_data_def key_matches_def [abs_def])
  with u2 have "length (filter (\<lambda>r. (dd_district_code r, dd_year r) = (district_code, year))
                          (tbl_district_data db2)) = 1"
    unfolding unique_keys_def by (rule unique_key_count)
  then show "length (filter (key_matches district_code year) (tbl_district_data db2)) = 1"
    by (simp add: key_matches_def [abs_def])
  from f1 f2 show "length (tbl_district_data db2) = length (tbl_district_data db1)"
    by simp
  from f2 show "get_cached_district_data db2 district_code year = Some r2"
    by simp
  from f1 f2 show r2: "r2 = (setattr_all d r1)\<lparr>dd_last_updated := Some (now e2)\<rparr>"
    by simp
  then show "row_has_values d r2"
    by (simp only: setattr_all_has_values)
  from f1 f2 lt
  show "\<exists>t1 t2. dd_last_updated r1 = Some t1 \<and> dd_last_updated r2 = Some t2 \<and> t1 < t2"
    by simp
qed

lemma sample_overwrite:
  "(setattr_all (sample_data ''AP001'' 2024) (sample_row 2024 p t))\<lparr>dd_last_updated := Some n\<rparr>
     = sample_row 2024 1000 n"
  by (simp add: setattr_all_def sample_data_def sample_row_def key_or_def key_or_null_def)

lemma sample_row_found:
  "get_cached_district_data (store [sample_row 2024 p t] False) ''AP001'' 2024
     = Some (sample_row 2024 p t)"
  by (simp add: get_cached_district_data_def store_def key_matches_def sample_row_def)

lemma sample_save_over:
  "save_district_data_to_cache (store [sample_row 2024 p t] False)
     (sample_data ''AP001'' 2024) ''AP001'' 2024 (reading n)
   = (Inr (sample_row 2024 1000 n), store [sample_row 2024 1000 n] False)"
  by (simp add: save_existing [OF sample_row_found] sample_overwrite)
    (simp add: store_def reading_def key_matches_def sample_row_def)

theorem one_row_per_key_witness:
  "save_district_data_to_cache (store [sample_row 2024 1 0] False)
     (sample_data ''AP001'' 2024) ''AP001'' 2024 (reading 5)
     = (Inr (sample_row 2024 1000 5), store [sample_row 2024 1000 5] False) \<and>
   save_district_data_to_cache (store [sample_row 2024 1000 5] False)
     (sample_data ''AP001'' 2024) ''AP001'' 2024 (reading 6)
     = (Inr (sample_row 2024 1000 6), store [sample_row 2024 1000 6] False) \<and>
   dd_total_person_days (sample_row 2024 1 0) = Some (Fin 1) \<and>
   dd_total_person_days (sample_row 2024 1000 5) = Some (Fin 1000) \<and>
   fd_total_person_days (sample_data ''AP001'' 2024) = Some (Fin 1000) \<and>
   \<not> row_has_values (sample_data ''AP001'' 2024) (sample_row 2024 1 0) \<and>
   row_has_values (sample_data ''AP001'' 2024) (sample_row 2024 1000 5) \<and>
   unique_keys (store [sample_row 2024 1000 5] False) \<and>
   length (filter (key_matches ''AP001'' 2024)
             (tbl_district_data (store [sample_row 2024 1000 5] False))) = 1 \<and>
   length (filter (key_matches ''AP001'' 2024)
             (tbl_district_data (store [sample_row 2024 1000 6] False))) = 1 \<and>
   dd_last_updated (sample_row 2024 1 0) = Some 0 \<and>
   dd_last_updated (sample_row 2024 1000 5) = Some 5 \<and>
   dd_last_updated (sample_row 2024 1000 6) = Some 6"
proof -
  have u: "unique_keys (store [sample_row 2024 1 0] False)"
    by (simp add: unique_keys_def store_def)
  have c: "client_for_key (data_client (MGNREGAService_init sample_client))"
    by (simp add: client_for_key_def MGNREGAService_init_def sample_client_def for_key_def
        sample_data_def)
  have k: "for_key (sample_data ''AP001'' 2024) ''AP001'' 2024"
    by (simp add: for_key_def sample_data_def)
  note s1 = sample_save_over [of 1 0 5]
  note s2 = sample_save_over [of 1000 5 6]
  have t: "now (reading 5) < now (reading 6)"
    by (simp add: reading_def)
  from one_row_per_key [OF u c k, of "reading 5"] sample_row_found [of 1 0] s1 s2 t
  have "unique_keys (store [sample_row 2024 1000 5] False) \<and>
        length (filter (key_matches ''AP001'' 2024)
                  (tbl_district_data (store [sample_row 2024 1000 5] False))) = 1 \<and>
        length (filter (key_matches ''AP001'' 2024)
                  (tbl_district_data (store [sample_row 2024 1000 6] False))) = 1 \<and>
        row_has_values (sample_data ''AP001'' 2024) (sample_row 2024 1000 5)"
    by fastforce
  moreover
  have "\<not> row_has_values (sample_data ''AP001'' 2024) (sample_row 2024 1 0)"
    by (simp add: row_has_values_def sample_data_def sample_row_def)
  ultimately show ?thesis
    using s1 s2 by (simp add: sample_row_def sample_data_def)
qed

section \<open>The stored flag\<close>

lemma list_all_update_first:
  assumes "list_all Q xs" and "Q y"
  shows "list_all Q (update_first P (\<lambda>_. y) xs)"
  using assms by (induction xs) auto

text \<open>
  The hypothesis of the fallback theorem is an invariant of the store: the empty table has
  it, and a save keeps it when the fetched dictionary has \<^verbatim>\<open>is_cached\<close> true, as the
  repository's client's has, or has no such key.
\<close>

theorem save_keeps_all_is_cached:
  assumes "all_is_cached db"
    and "fd_is_cached d = None \<or> fd_is_cached d = Some True"
  shows "all_is_cached (snd (save_district_data_to_cache db d district_code year e))"
proof (cases "get_cached_district_data db district_code year")
  case None
  show ?thesis
  proof (cases "new_district_data d district_code year (now e)")
    case (Inl err)
    with None assms(1) show ?thesis by (simp add: save_new)
  next
    case (Inr r)
    from new_district_data_Inr [OF Inr] assms(2) have "dd_is_cached r = Some True"
      by (auto simp add: key_or_null_def)
    with assms(1) Inr None show ?thesis
      by (simp add: save_new all_is_cached_def)
  qed
next
  case (Some existing)
  define r where "r = (setattr_all d existing)\<lparr>dd_last_updated := Some (now e)\<rparr>"
  from all_is_cached_lookup [OF assms(1) Some] assms(2) have "dd_is_cached r = Some True"
    by (auto simp add: r_def setattr_all_def key_or_null_def)
  with assms(1)
  have "list_all (\<lambda>r. dd_is_cached r = Some True)
          (update_first (key_matches district_code year) (\<lambda>_. r) (tbl_district_data db))"
    unfolding all_is_cached_def by (rule list_all_update_first)
  with assms(1) Some show ?thesis
    by (simp add: save_existing all_is_cached_def r_def)
qed

theorem save_keeps_all_is_cached_witness:
  "all_is_cached (store [] False) \<and> all_is_cached (store [sample_row 2024 1000 5] False)"
proof -
  have a: "all_is_cached (store [] False)"
    by (simp add: all_is_cached_def store_def)
  have b: "fd_is_cached (sample_data ''AP001'' 2024) = None \<or>
           fd_is_cached (sample_data ''AP001'' 2024) = Some True"
    by (simp add: sample_data_def)
  have s: "save_district_data_to_cache (store [] False) (sample_data ''AP001'' 2024) ''AP001''
             2024 (reading 5) = (Inr (sample_row 2024 1000 5), store [sample_row 2024 1000 5] False)"
    by (simp add: save_new [OF empty_lookup] sample_new_row) (simp add: store_def reading_def)
  from save_keeps_all_is_cached [OF a b, of "''AP001''" 2024 "reading 5"] a show ?thesis
    by (simp add: s)
qed

end
